theory Spec2Isabelle
  imports Complex_Main
begin

section \<open>Python values, numbers and the runtime\<close>

text \<open>
  The engines of \<^verbatim>\<open>src/src/scoring_engine.py\<close> and \<^verbatim>\<open>src/src/benchmarking.py\<close> work on
  dictionaries from field names to Python values. The values that reach them are
  \<^verbatim>\<open>None\<close>, booleans, integers, floats and strings. An \<^verbatim>\<open>int\<close> is unbounded; a
  \<^verbatim>\<open>float\<close> is a binary double, held as the real number it denotes. Infinities, NaN
  and the overflow of a result beyond the range of a double are outside the model.
\<close>

datatype pyval = PNone | PBool bool | PInt int | PFloat real | PStr string

datatype pyerror = TypeError | ZeroDivisionError | ValueError string | KeyError string | IndexError

type_synonym pydict = "string \<rightharpoonup> pyval"

text \<open>A number as arithmetic sees it: an integer or a float.\<close>

datatype num = NInt int | NFloat real

fun num_val :: "num \<Rightarrow> real" where
  "num_val (NInt n) = of_int n"
| "num_val (NFloat x) = x"

fun pynum :: "num \<Rightarrow> pyval" where
  "pynum (NInt n) = PInt n"
| "pynum (NFloat x) = PFloat x"

text \<open>Truth value testing, as \<^verbatim>\<open>if x\<close>, \<^verbatim>\<open>not x\<close>, \<^verbatim>\<open>x or y\<close> and \<^verbatim>\<open>x and y\<close> do it.\<close>

fun truthy :: "pyval \<Rightarrow> bool" where
  "truthy PNone = False"
| "truthy (PBool b) = b"
| "truthy (PInt n) = (n \<noteq> 0)"
| "truthy (PFloat x) = (x \<noteq> 0)"
| "truthy (PStr s) = (s \<noteq> [])"

text \<open>\<^verbatim>\<open>d.get(k, default)\<close>; \<^verbatim>\<open>d.get(k)\<close> is \<open>dget d k PNone\<close>.\<close>

definition dget :: "pydict \<Rightarrow> string \<Rightarrow> pyval \<Rightarrow> pyval" where
  "dget d k dflt = (case d k of None \<Rightarrow> dflt | Some v \<Rightarrow> v)"

text \<open>\<^verbatim>\<open>a or b\<close>: the first operand when it is truthy, the second otherwise.\<close>

definition por :: "pyval \<Rightarrow> pyval \<Rightarrow> pyval" where
  "por a b = (if truthy a then a else b)"

text \<open>
  The number an operand stands for in arithmetic and in a comparison with a number.
  A boolean is the integer 1 or 0; \<^verbatim>\<open>None\<close> and strings raise \<^verbatim>\<open>TypeError\<close>.
  Comparisons of numbers compare their values exactly.
\<close>

fun num_of :: "pyval \<Rightarrow> pyerror + num" where
  "num_of (PInt n) = Inr (NInt n)"
| "num_of (PFloat x) = Inr (NFloat x)"
| "num_of (PBool b) = Inr (NInt (if b then 1 else 0))"
| "num_of PNone = Inl TypeError"
| "num_of (PStr s) = Inl TypeError"

text \<open>
  What the engines take from the Python runtime and library. \<open>fl\<close> rounds an exact
  result to the double that Python returns for it (a float operation, the true division
  of two integers and the conversion of an integer to a float all return the correctly
  rounded result). \<open>num_str\<close> is \<^verbatim>\<open>str\<close> of a number, \<open>fromisoformat\<close> is
  \<^verbatim>\<open>datetime.fromisoformat\<close> (a \<^verbatim>\<open>datetime\<close> is its number of microseconds since
  0001-01-01T00:00:00, and \<open>None\<close> stands for the \<^verbatim>\<open>ValueError\<close> of a string that does
  not parse) and \<open>now\<close> is \<^verbatim>\<open>datetime.now()\<close>. Every function below takes the runtime
  as a parameter, and a theorem assumes of it only what it states. One call of an engine
  is evaluated at one instant \<open>now\<close>.
\<close>

record runtime =
  fl :: "real \<Rightarrow> real"
  num_str :: "num \<Rightarrow> string"
  fromisoformat :: "string \<Rightarrow> int option"
  now :: int

text \<open>A float literal of the source denotes the double nearest to it.\<close>

definition float_lit :: "runtime \<Rightarrow> real \<Rightarrow> num" where
  "float_lit rt x = NFloat (fl rt x)"

text \<open>The float an operand of a mixed or float operation is converted to.\<close>

fun to_float :: "runtime \<Rightarrow> num \<Rightarrow> real" where
  "to_float rt (NInt n) = fl rt (of_int n)"
| "to_float rt (NFloat x) = x"

text \<open>
  \<^verbatim>\<open>a + b\<close>, \<^verbatim>\<open>a - b\<close> and \<^verbatim>\<open>a * b\<close>: exact on two integers, otherwise the rounded result of
  the operation on the two floats.
\<close>

fun py_add :: "runtime \<Rightarrow> num \<Rightarrow> num \<Rightarrow> num" where
  "py_add rt (NInt a) (NInt b) = NInt (a + b)"
| "py_add rt a b = NFloat (fl rt (to_float rt a + to_float rt b))"

fun py_sub :: "runtime \<Rightarrow> num \<Rightarrow> num \<Rightarrow> num" where
  "py_sub rt (NInt a) (NInt b) = NInt (a - b)"
| "py_sub rt a b = NFloat (fl rt (to_float rt a - to_float rt b))"

fun py_mul :: "runtime \<Rightarrow> num \<Rightarrow> num \<Rightarrow> num" where
  "py_mul rt (NInt a) (NInt b) = NInt (a * b)"
| "py_mul rt a b = NFloat (fl rt (to_float rt a * to_float rt b))"

text \<open>
  \<^verbatim>\<open>a / b\<close> for a divisor that is not zero: always a float, the rounded quotient (of the
  two integers themselves when both operands are integers).
\<close>

fun true_div :: "runtime \<Rightarrow> num \<Rightarrow> num \<Rightarrow> num" where
  "true_div rt (NInt a) (NInt b) = NFloat (fl rt (of_int a / of_int b))"
| "true_div rt a b = NFloat (fl rt (to_float rt a / to_float rt b))"

text \<open>\<^verbatim>\<open>a / b\<close> where nothing guards the divisor.\<close>

definition py_truediv :: "runtime \<Rightarrow> num \<Rightarrow> num \<Rightarrow> pyerror + num" where
  "py_truediv rt a b = (if num_val b = 0 then Inl ZeroDivisionError else Inr (true_div rt a b))"

text \<open>
  \<^verbatim>\<open>max(a, b)\<close> keeps its first argument unless the second is greater; \<^verbatim>\<open>min(a, b)\<close>
  keeps it unless the second is smaller.
\<close>

definition py_max :: "num \<Rightarrow> num \<Rightarrow> num" where
  "py_max a b = (if num_val a < num_val b then b else a)"

definition py_min :: "num \<Rightarrow> num \<Rightarrow> num" where
  "py_min a b = (if num_val b < num_val a then b else a)"

text \<open>
  \<^verbatim>\<open>round(x, 1)\<close>. An integer is returned as it is. A float is rounded to the nearest
  multiple of one tenth, a tie of its exact value going to the even one, and the result
  is the double nearest to that decimal.
\<close>

definition round_half_even :: "real \<Rightarrow> int" where
  "round_half_even y =
     (let f = \<lfloor>y\<rfloor>; d = y - of_int f
      in if d < 1 / 2 then f
         else if 1 / 2 < d then f + 1
         else if even f then f else f + 1)"

definition round1 :: "real \<Rightarrow> real" where
  "round1 x = of_int (round_half_even (x * 10)) / 10"

fun py_round1 :: "runtime \<Rightarrow> num \<Rightarrow> num" where
  "py_round1 rt (NInt n) = NInt n"
| "py_round1 rt (NFloat x) = NFloat (fl rt (round1 x))"

text \<open>\<^verbatim>\<open>str(v)\<close>.\<close>

fun pystr :: "runtime \<Rightarrow> pyval \<Rightarrow> string" where
  "pystr rt PNone = ''None''"
| "pystr rt (PBool b) = (if b then ''True'' else ''False'')"
| "pystr rt (PInt n) = num_str rt (NInt n)"
| "pystr rt (PFloat x) = num_str rt (NFloat x)"
| "pystr rt (PStr s) = s"

text \<open>\<^verbatim>\<open>(a - b).days\<close> of two datetimes: whole days, rounded down.\<close>

definition days_between :: "int \<Rightarrow> int \<Rightarrow> int" where
  "days_between a b = (a - b) div 86400000000"

text \<open>\<^verbatim>\<open>datetime.fromisoformat(str(v)[:n])\<close>.\<close>

definition parse_prefix :: "runtime \<Rightarrow> nat \<Rightarrow> pyval \<Rightarrow> int option" where
  "parse_prefix rt n v = fromisoformat rt (take n (pystr rt v))"

text \<open>
  A runtime for the examples. Its \<open>fromisoformat\<close> reads a calendar date written
  \<^verbatim>\<open>YYYY-MM-DD\<close> as that day's midnight and rejects every other string. Its \<open>fl\<close> is
  the identity: the examples are chosen so that Python's doubles give the same results
  as exact arithmetic. They hold no number where a string is read, so \<open>num_str\<close> is
  never consulted.
\<close>

definition digit_of :: "char \<Rightarrow> nat option" where
  "digit_of c =
     (let n = (of_char c :: nat) in if 48 \<le> n \<and> n \<le> 57 then Some (n - 48) else None)"

fun digits_value :: "string \<Rightarrow> nat \<Rightarrow> nat option" where
  "digits_value [] acc = Some acc"
| "digits_value (c # cs) acc =
     (case digit_of c of None \<Rightarrow> None | Some d \<Rightarrow> digits_value cs (10 * acc + d))"

definition is_leap :: "nat \<Rightarrow> bool" where
  "is_leap y = ((y mod 4 = 0 \<and> y mod 100 \<noteq> 0) \<or> y mod 400 = 0)"

definition days_in_month :: "nat \<Rightarrow> nat \<Rightarrow> nat" where
  "days_in_month y m =
     (if m = 2 then (if is_leap y then 29 else 28)
      else if m = 4 \<or> m = 6 \<or> m = 9 \<or> m = 11 then 30 else 31)"

definition days_before_month :: "nat \<Rightarrow> nat \<Rightarrow> nat" where
  "days_before_month y m =
     [0, 31, 59, 90, 120, 151, 181, 212, 243, 273, 304, 334] ! (m - 1)
     + (if 2 < m \<and> is_leap y then 1 else 0)"

definition days_before_year :: "nat \<Rightarrow> nat" where
  "days_before_year y = (y - 1) * 365 + (y - 1) div 4 - (y - 1) div 100 + (y - 1) div 400"

definition iso_date :: "string \<Rightarrow> int option" where
  "iso_date s =
     (if length s = 10 \<and> s ! 4 = CHR ''-'' \<and> s ! 7 = CHR ''-'' then
        (case digits_value (take 4 s) 0 of
           None \<Rightarrow> None
         | Some y \<Rightarrow>
            (case digits_value (take 2 (drop 5 s)) 0 of
               None \<Rightarrow> None
             | Some m \<Rightarrow>
                (case digits_value (drop 8 s) 0 of
                   None \<Rightarrow> None
                 | Some d \<Rightarrow>
                     if 1 \<le> y \<and> 1 \<le> m \<and> m \<le> 12 \<and> 1 \<le> d \<and> d \<le> days_in_month y m
                     then Some (int (days_before_year y + days_before_month y m + d - 1)
                                * 86400000000)
                     else None)))
      else None)"

definition example_runtime :: runtime where
  "example_runtime =
     \<lparr>fl = (\<lambda>x. x), num_str = (\<lambda>x. []), fromisoformat = iso_date,
      now = 738900 * 86400000000 + 43200000000\<rparr>"

section \<open>Contract scoring engine\<close>

subsection \<open>Cost variance\<close>

text \<open>The division is reached only with \<open>original > 0\<close>.\<close>

definition cost_variance_pct :: "runtime \<Rightarrow> num \<Rightarrow> num \<Rightarrow> num" where
  "cost_variance_pct rt current original =
     py_mul rt (true_div rt (py_sub rt current original) original) (NInt 100)"

definition calculate_cost_variance_score :: "runtime \<Rightarrow> pydict \<Rightarrow> pyerror + num" where
  "calculate_cost_variance_score rt contract =
     (let original = por (dget contract ''original_amount'' (PInt 0)) (PInt 0);
          current = por (dget contract ''current_amount'' (PInt 0)) (PInt 0)
      in case num_of original of
           Inl e \<Rightarrow> Inl e
         | Inr orig \<Rightarrow>
             if num_val orig \<le> 0 then Inr (NInt 50)
             else (case num_of current of
                     Inl e \<Rightarrow> Inl e
                   | Inr cur \<Rightarrow>
                       (let variance_pct = cost_variance_pct rt cur orig
                        in if num_val variance_pct \<le> 0 then Inr (NInt 100)
                           else if num_val variance_pct \<le> 5 then Inr (NInt 95)
                           else if num_val variance_pct \<le> 10 then Inr (NInt 85)
                           else if num_val variance_pct \<le> 15 then Inr (NInt 70)
                           else if num_val variance_pct \<le> 20 then Inr (NInt 55)
                           else if num_val variance_pct \<le> 30 then Inr (NInt 40)
                           else Inr (py_max (NInt 20)
                                       (py_sub rt (NInt 40)
                                          (py_sub rt variance_pct (NInt 30)))))))"

subsection \<open>Schedule variance\<close>

text \<open>
  The body after the two presence tests runs in a \<^verbatim>\<open>try\<close> whose handler returns 50 on
  \<^verbatim>\<open>ValueError\<close> and \<^verbatim>\<open>TypeError\<close>; only the three parses can raise there, and the
  division is reached only with \<open>original_duration > 0\<close>.
\<close>

definition schedule_band :: "runtime \<Rightarrow> num \<Rightarrow> num" where
  "schedule_band rt extension_pct =
     (if num_val extension_pct \<le> 0 then NInt 100
      else if num_val extension_pct \<le> 5 then NInt 90
      else if num_val extension_pct \<le> 10 then NInt 80
      else if num_val extension_pct \<le> 20 then NInt 65
      else if num_val extension_pct \<le> 30 then NInt 50
      else py_max (NInt 20) (py_sub rt (NInt 50) (py_sub rt extension_pct (NInt 30))))"

definition calculate_schedule_variance_score :: "runtime \<Rightarrow> pydict \<Rightarrow> num" where
  "calculate_schedule_variance_score rt contract =
     (let original_end = dget contract ''original_end_date'' PNone;
          current_end = dget contract ''current_end_date'' PNone;
          start_date = dget contract ''start_date'' PNone
      in if \<not> truthy original_end then NInt 50
         else if \<not> truthy start_date then NInt 50
         else (case parse_prefix rt 10 original_end of
                 None \<Rightarrow> NInt 50
               | Some original_end_dt \<Rightarrow>
                  (case parse_prefix rt 10 (por current_end original_end) of
                     None \<Rightarrow> NInt 50
                   | Some current_end_dt \<Rightarrow>
                      (case parse_prefix rt 10 start_date of
                         None \<Rightarrow> NInt 50
                       | Some start_dt \<Rightarrow>
                           (let original_duration = days_between original_end_dt start_dt
                            in if original_duration \<le> 0 then NInt 50
                               else (let extension_days = days_between current_end_dt original_end_dt;
                                         extension_pct =
                                           py_mul rt
                                             (true_div rt (NInt extension_days) (NInt original_duration))
                                             (NInt 100)
                                     in schedule_band rt extension_pct))))))"

subsection \<open>Performance\<close>

text \<open>
  One pass of the loop over the milestones; the state is the three counters
  \<open>(completed_on_time, completed_late, overdue)\<close>. The bare \<^verbatim>\<open>except\<close> counts a
  completed milestone whose dates do not parse as on time.
\<close>

definition milestone_step :: "runtime \<Rightarrow> pydict \<Rightarrow> int \<times> int \<times> int \<Rightarrow> int \<times> int \<times> int" where
  "milestone_step rt m acc =
     (case acc of (completed_on_time, completed_late, overdue) \<Rightarrow>
        (let status = dget m ''status'' (PStr []);
             due_date = dget m ''due_date'' PNone;
             completed_date = dget m ''completed_date'' PNone
         in if status = PStr ''Completed'' then
              (if truthy due_date \<and> truthy completed_date then
                 (case parse_prefix rt 10 due_date of
                    None \<Rightarrow> (completed_on_time + 1, completed_late, overdue)
                  | Some due \<Rightarrow>
                     (case parse_prefix rt 10 completed_date of
                        None \<Rightarrow> (completed_on_time + 1, completed_late, overdue)
                      | Some completed \<Rightarrow>
                          if completed \<le> due
                          then (completed_on_time + 1, completed_late, overdue)
                          else (completed_on_time, completed_late + 1, overdue)))
               else (completed_on_time + 1, completed_late, overdue))
            else if status = PStr ''Overdue'' then (completed_on_time, completed_late, overdue + 1)
            else (completed_on_time, completed_late, overdue)))"

text \<open>The base score; a non-empty list has \<open>total > 0\<close>, so the divisions are defined.\<close>

definition milestone_base_score :: "runtime \<Rightarrow> pydict list option \<Rightarrow> num" where
  "milestone_base_score rt milestones =
     (case milestones of
        None \<Rightarrow> NInt 50
      | Some [] \<Rightarrow> NInt 50
      | Some (m # ms) \<Rightarrow>
          (let total = NInt (int (length (m # ms))) in
           case fold (milestone_step rt) (m # ms) (0, 0, 0) of
             (completed_on_time, completed_late, overdue) \<Rightarrow>
               (let on_time_pct = py_mul rt (true_div rt (NInt completed_on_time) total) (NInt 100);
                    late_pct = py_mul rt (true_div rt (NInt completed_late) total) (NInt 100);
                    overdue_pct = py_mul rt (true_div rt (NInt overdue) total) (NInt 100);
                    base_score =
                      py_sub rt
                        (py_sub rt on_time_pct (py_mul rt late_pct (float_lit rt 0.3)))
                        (py_mul rt overdue_pct (float_lit rt 0.5))
                in py_max (NInt 0) (py_min (NInt 100) base_score))))"

definition calculate_performance_score :: "runtime \<Rightarrow> pydict \<Rightarrow> pydict list option \<Rightarrow> pyerror + num" where
  "calculate_performance_score rt contract milestones =
     (let base_score = milestone_base_score rt milestones;
          percent_complete = por (dget contract ''percent_complete'' (PInt 0)) (PInt 0)
      in case num_of percent_complete of
           Inl e \<Rightarrow> Inl e
         | Inr pc \<Rightarrow>
             Inr (py_add rt (py_mul rt base_score (float_lit rt 0.7))
                            (py_mul rt pc (float_lit rt 0.3))))"

subsection \<open>Compliance\<close>

definition calculate_compliance_score :: "pydict \<Rightarrow> pyerror + num" where
  "calculate_compliance_score contract =
     (let score0 = (100 :: int);
          score1 = (if truthy (dget contract ''requires_insurance'' PNone)
                       \<and> \<not> truthy (dget contract ''insurance_verified'' PNone)
                    then score0 - 20 else score0);
          score2 = (if truthy (dget contract ''requires_bond'' PNone)
                       \<and> \<not> truthy (dget contract ''bond_verified'' PNone)
                    then score1 - 15 else score1);
          board_date = dget contract ''board_approval_date'' PNone;
          award_date = dget contract ''award_date'' PNone;
          score3 = (if truthy award_date \<and> \<not> truthy board_date then
                      (case num_of (por (dget contract ''current_amount'' (PInt 0)) (PInt 0)) of
                         Inl e \<Rightarrow> Inl e
                       | Inr amount \<Rightarrow> Inr (if 50000 < num_val amount then score2 - 25 else score2))
                    else Inr score2)
      in case score3 of
           Inl e \<Rightarrow> Inl e
         | Inr s3 \<Rightarrow>
             (let score4 = (if truthy (dget contract ''is_sole_source'' PNone)
                               \<and> \<not> truthy (dget contract ''justification'' PNone)
                            then s3 - 15 else s3)
              in Inr (NInt (max 0 score4))))"

subsection \<open>Overall health\<close>

definition health_weights :: "runtime \<Rightarrow> string \<rightharpoonup> num" where
  "health_weights rt =
     [''cost_variance'' \<mapsto> float_lit rt 0.30, ''schedule_variance'' \<mapsto> float_lit rt 0.25,
      ''performance'' \<mapsto> float_lit rt 0.25, ''compliance'' \<mapsto> float_lit rt 0.20]"

definition calculate_overall_health :: "runtime \<Rightarrow> pydict \<Rightarrow> pydict list option \<Rightarrow> pyerror + num" where
  "calculate_overall_health rt contract milestones =
     (case calculate_cost_variance_score rt contract of
        Inl e \<Rightarrow> Inl e
      | Inr cost_score \<Rightarrow>
         (let schedule_score = calculate_schedule_variance_score rt contract
          in case calculate_performance_score rt contract milestones of
               Inl e \<Rightarrow> Inl e
             | Inr performance_score \<Rightarrow>
                (case calculate_compliance_score contract of
                   Inl e \<Rightarrow> Inl e
                 | Inr compliance_score \<Rightarrow>
                    (let health =
                           py_add rt
                             (py_add rt
                                (py_add rt
                                   (py_mul rt cost_score (the (health_weights rt ''cost_variance'')))
                                   (py_mul rt schedule_score
                                      (the (health_weights rt ''schedule_variance''))))
                                (py_mul rt performance_score (the (health_weights rt ''performance''))))
                             (py_mul rt compliance_score (the (health_weights rt ''compliance'')))
                     in Inr (py_round1 rt health)))))"

subsection \<open>Risk level\<close>

definition risk_thresholds :: "string \<rightharpoonup> real" where
  "risk_thresholds =
     [''critical'' \<mapsto> 30, ''high'' \<mapsto> 50, ''medium'' \<mapsto> 70, ''low'' \<mapsto> 100]"

definition determine_risk_level :: "real \<Rightarrow> string" where
  "determine_risk_level health_score =
     (if health_score < the (risk_thresholds ''critical'') then ''Critical''
      else if health_score < the (risk_thresholds ''high'') then ''High''
      else if health_score < the (risk_thresholds ''medium'') then ''Medium''
      else ''Low'')"

subsection \<open>Scoring one contract\<close>

text \<open>
  \<^verbatim>\<open>score_contract\<close> assigns into the dictionary it is given and returns that same
  dictionary. The model returns the dictionary as the call leaves it, together with the
  exception that ended the call, if one did; with \<open>None\<close> the call returned, and what
  it returned is the dictionary of the first component.
\<close>

definition score_contract :: "runtime \<Rightarrow> pydict \<Rightarrow> pydict list option \<Rightarrow> pydict \<times> pyerror option" where
  "score_contract rt contract milestones =
     (case calculate_cost_variance_score rt contract of
        Inl e \<Rightarrow> (contract, Some e)
      | Inr v1 \<Rightarrow>
         (let c1 = contract(''cost_variance_score'' \<mapsto> pynum v1);
              c2 = c1(''schedule_variance_score'' \<mapsto> pynum (calculate_schedule_variance_score rt c1))
          in case calculate_performance_score rt c2 milestones of
               Inl e \<Rightarrow> (c2, Some e)
             | Inr v3 \<Rightarrow>
                (let c3 = c2(''performance_score'' \<mapsto> pynum v3)
                 in case calculate_compliance_score c3 of
                      Inl e \<Rightarrow> (c3, Some e)
                    | Inr v4 \<Rightarrow>
                       (let c4 = c3(''compliance_score'' \<mapsto> pynum v4)
                        in case calculate_overall_health rt c4 milestones of
                             Inl e \<Rightarrow> (c4, Some e)
                           | Inr v5 \<Rightarrow>
                              (let c5 = c4(''overall_health_score'' \<mapsto> pynum v5)
                               in case num_of (dget c5 ''overall_health_score'' PNone) of
                                    Inl e \<Rightarrow> (c5, Some e)
                                  | Inr h \<Rightarrow>
                                     (c5(''risk_level'' \<mapsto> PStr (determine_risk_level (num_val h))),
                                      None))))))"

definition derived_fields :: "string list" where
  "derived_fields =
     [''cost_variance_score'', ''schedule_variance_score'', ''performance_score'',
      ''compliance_score'', ''overall_health_score'', ''risk_level'']"

section \<open>Vendor scoring engine\<close>

text \<open>
  The loop of \<^verbatim>\<open>calculate_vendor_score\<close>; the state is
  \<open>(weighted_score, total_weight)\<close>. A health score or an amount that is not a number
  ends the iteration with \<^verbatim>\<open>TypeError\<close>, at the product or at the sum that follows it.
\<close>

fun vendor_loop :: "runtime \<Rightarrow> pydict list \<Rightarrow> num \<times> num \<Rightarrow> pyerror + num \<times> num" where
  "vendor_loop rt [] acc = Inr acc"
| "vendor_loop rt (contract # rest) (weighted_score, total_weight) =
     (let amount = por (dget contract ''current_amount'' (PInt 0)) (PInt 1);
          health = dget contract ''overall_health_score'' (PInt 50)
      in case num_of health of
           Inl e \<Rightarrow> Inl e
         | Inr h \<Rightarrow>
            (case num_of amount of
               Inl e \<Rightarrow> Inl e
             | Inr a \<Rightarrow>
                 vendor_loop rt rest
                   (py_add rt weighted_score (py_mul rt h a), py_add rt total_weight a)))"

text \<open>The division is reached only with \<open>total_weight > 0\<close>.\<close>

definition calculate_vendor_score :: "runtime \<Rightarrow> pydict \<Rightarrow> pydict list \<Rightarrow> pyerror + num" where
  "calculate_vendor_score rt vendor contracts =
     (if contracts = [] then Inr (NInt 50)
      else (case vendor_loop rt contracts (NInt 0, NInt 0) of
              Inl e \<Rightarrow> Inl e
            | Inr (weighted_score, total_weight) \<Rightarrow>
                if 0 < num_val total_weight
                then Inr (py_round1 rt (true_div rt weighted_score total_weight))
                else Inr (NInt 50)))"

section \<open>Alert generator\<close>

text \<open>
  An alert. \<open>generated_at\<close> holds the instant whose ISO rendering the source stores.
\<close>

record alert =
  alert_id :: string
  contract_id :: pyval
  contract_title :: pyval
  vendor_name :: pyval
  alert_type :: string
  title :: string
  severity :: string
  generated_at :: int

text \<open>
  A rule of the table. Its condition is applied to a contract and either raises or
  gives a value that \<^verbatim>\<open>generate_alerts\<close> tests for truth; \<open>Inr b\<close> is that truth value.
\<close>

record alert_rule =
  rule_id :: string
  rule_name :: string
  rule_severity :: string
  condition :: "pydict \<Rightarrow> pyerror + bool"

definition cost_overrun :: "runtime \<Rightarrow> pydict \<Rightarrow> real \<Rightarrow> real \<Rightarrow> pyerror + bool" where
  "cost_overrun rt contract min_pct max_pct =
     (let original = por (dget contract ''original_amount'' (PInt 0)) (PInt 0);
          current = por (dget contract ''current_amount'' (PInt 0)) (PInt 0)
      in case num_of original of
           Inl e \<Rightarrow> Inl e
         | Inr orig \<Rightarrow>
             if num_val orig \<le> 0 then Inr False
             else (case num_of current of
                     Inl e \<Rightarrow> Inl e
                   | Inr cur \<Rightarrow>
                       (let variance_pct = cost_variance_pct rt cur orig
                        in Inr (min_pct \<le> num_val variance_pct
                                \<and> num_val variance_pct < max_pct))))"

text \<open>The next three predicates end every exception in a bare \<^verbatim>\<open>except\<close> that returns False.\<close>

definition schedule_delay :: "runtime \<Rightarrow> pydict \<Rightarrow> real \<Rightarrow> real \<Rightarrow> bool" where
  "schedule_delay rt contract min_pct max_pct =
     (let original_end = dget contract ''original_end_date'' PNone;
          current_end = dget contract ''current_end_date'' PNone;
          start_date = dget contract ''start_date'' PNone
      in if \<not> truthy original_end then False
         else if \<not> truthy start_date then False
         else (case parse_prefix rt 10 original_end of
                 None \<Rightarrow> False
               | Some original_end_dt \<Rightarrow>
                  (case parse_prefix rt 10 (por current_end original_end) of
                     None \<Rightarrow> False
                   | Some current_end_dt \<Rightarrow>
                      (case parse_prefix rt 10 start_date of
                         None \<Rightarrow> False
                       | Some start_dt \<Rightarrow>
                           (let original_duration = days_between original_end_dt start_dt
                            in if original_duration \<le> 0 then False
                               else (let extension_days = days_between current_end_dt original_end_dt;
                                         extension_pct =
                                           py_mul rt
                                             (true_div rt (NInt extension_days) (NInt original_duration))
                                             (NInt 100)
                                     in min_pct \<le> num_val extension_pct
                                        \<and> num_val extension_pct < max_pct))))))"

definition expiring_soon :: "runtime \<Rightarrow> pydict \<Rightarrow> int \<Rightarrow> bool" where
  "expiring_soon rt contract days =
     (let end_date = por (dget contract ''current_end_date'' PNone)
                         (dget contract ''original_end_date'' PNone)
      in if \<not> truthy end_date then False
         else (case parse_prefix rt 10 end_date of
                 None \<Rightarrow> False
               | Some end_dt \<Rightarrow>
                   (let days_until = days_between end_dt (now rt)
                    in 0 < days_until \<and> days_until \<le> days)))"

text \<open>
  Here \<open>None\<close> of the parse also stands for a result that carries a UTC offset: its
  subtraction from \<^verbatim>\<open>datetime.now()\<close> raises, and the same handler returns False.
\<close>

definition no_recent_activity :: "runtime \<Rightarrow> pydict \<Rightarrow> int \<Rightarrow> bool" where
  "no_recent_activity rt contract days =
     (let updated = dget contract ''updated_at'' PNone
      in if \<not> truthy updated then False
         else (case parse_prefix rt 19 updated of
                 None \<Rightarrow> False
               | Some updated_dt \<Rightarrow>
                   (let days_since = days_between (now rt) updated_dt
                    in days < days_since \<and> dget contract ''status'' PNone = PStr ''Active'')))"

definition low_health_condition :: "pydict \<Rightarrow> pyerror + bool" where
  "low_health_condition c =
     (case num_of (por (dget c ''overall_health_score'' (PInt 100)) (PInt 100)) of
        Inl e \<Rightarrow> Inl e
      | Inr h \<Rightarrow> Inr (num_val h < 50))"

definition change_orders_condition :: "pydict \<Rightarrow> pyerror + bool" where
  "change_orders_condition c =
     (case num_of (por (dget c ''change_order_count'' (PInt 0)) (PInt 0)) of
        Inl e \<Rightarrow> Inl e
      | Inr n \<Rightarrow> Inr (3 \<le> num_val n))"

definition insurance_condition :: "pydict \<Rightarrow> pyerror + bool" where
  "insurance_condition c =
     Inr (truthy (dget c ''requires_insurance'' PNone)
          \<and> \<not> truthy (dget c ''insurance_verified'' PNone))"

definition alert_rules :: "runtime \<Rightarrow> alert_rule list" where
  "alert_rules rt =
     [\<lparr>rule_id = ''cost_overrun_warning'', rule_name = ''Cost Overrun Warning'',
       rule_severity = ''High'', condition = (\<lambda>c. cost_overrun rt c 10 20)\<rparr>,
      \<lparr>rule_id = ''cost_overrun_critical'', rule_name = ''Critical Cost Overrun'',
       rule_severity = ''Critical'', condition = (\<lambda>c. cost_overrun rt c 20 100)\<rparr>,
      \<lparr>rule_id = ''schedule_delay_warning'', rule_name = ''Schedule Delay Warning'',
       rule_severity = ''Medium'', condition = (\<lambda>c. Inr (schedule_delay rt c 10 20))\<rparr>,
      \<lparr>rule_id = ''schedule_delay_critical'', rule_name = ''Critical Schedule Delay'',
       rule_severity = ''High'', condition = (\<lambda>c. Inr (schedule_delay rt c 20 100))\<rparr>,
      \<lparr>rule_id = ''expiring_soon'', rule_name = ''Contract Expiring Soon'',
       rule_severity = ''Medium'', condition = (\<lambda>c. Inr (expiring_soon rt c 30))\<rparr>,
      \<lparr>rule_id = ''insurance_expired'', rule_name = ''Insurance Not Verified'',
       rule_severity = ''High'', condition = insurance_condition\<rparr>,
      \<lparr>rule_id = ''low_health_score'', rule_name = ''Low Health Score'',
       rule_severity = ''High'', condition = low_health_condition\<rparr>,
      \<lparr>rule_id = ''multiple_change_orders'', rule_name = ''Excessive Change Orders'',
       rule_severity = ''Medium'', condition = change_orders_condition\<rparr>,
      \<lparr>rule_id = ''no_activity'', rule_name = ''No Recent Activity'',
       rule_severity = ''Low'', condition = (\<lambda>c. Inr (no_recent_activity rt c 60))\<rparr>]"

text \<open>The dictionary appended for a rule that fired.\<close>

definition make_alert :: "runtime \<Rightarrow> pydict \<Rightarrow> alert_rule \<Rightarrow> alert" where
  "make_alert rt contract rule =
     \<lparr>alert_id = pystr rt (dget contract ''contract_id'' PNone) @ ''_'' @ rule_id rule,
      contract_id = dget contract ''contract_id'' PNone,
      contract_title = dget contract ''title'' PNone,
      vendor_name = dget contract ''vendor_name'' PNone,
      alert_type = rule_id rule,
      title = rule_name rule,
      severity = rule_severity rule,
      generated_at = now rt\<rparr>"

text \<open>
  The inner loop over the rules for one contract. The state is the list of alerts and
  the error log; the \<^verbatim>\<open>try\<close> around one rule turns an exception of its condition into
  a log entry and goes on with the next rule.
\<close>

fun check_rules ::
  "runtime \<Rightarrow> pydict \<Rightarrow> alert_rule list \<Rightarrow> alert list \<times> (string \<times> pyerror) list
     \<Rightarrow> alert list \<times> (string \<times> pyerror) list" where
  "check_rules rt contract [] st = st"
| "check_rules rt contract (rule # rules) (alerts, logged) =
     (case condition rule contract of
        Inl e \<Rightarrow> check_rules rt contract rules (alerts, logged @ [(rule_id rule, e)])
      | Inr b \<Rightarrow>
          if b then check_rules rt contract rules (alerts @ [make_alert rt contract rule], logged)
          else check_rules rt contract rules (alerts, logged))"

text \<open>The outer loop over the contracts.\<close>

fun scan_contracts ::
  "runtime \<Rightarrow> pydict list \<Rightarrow> alert list \<times> (string \<times> pyerror) list
     \<Rightarrow> alert list \<times> (string \<times> pyerror) list" where
  "scan_contracts rt [] st = st"
| "scan_contracts rt (contract # contracts) st =
     scan_contracts rt contracts (check_rules rt contract (alert_rules rt) st)"

definition severity_order :: "string \<rightharpoonup> nat" where
  "severity_order = [''Critical'' \<mapsto> 0, ''High'' \<mapsto> 1, ''Medium'' \<mapsto> 2, ''Low'' \<mapsto> 3]"

text \<open>The sort key \<^verbatim>\<open>severity_order.get(a['severity'], 4)\<close>.\<close>

definition severity_rank :: "alert \<Rightarrow> nat" where
  "severity_rank a = (case severity_order (severity a) of None \<Rightarrow> 4 | Some n \<Rightarrow> n)"

text \<open>
  \<^verbatim>\<open>generate_alerts\<close> returns the alerts; the second component is what it sent to the
  logger. \<^verbatim>\<open>list.sort\<close> is a stable sort, as \<open>sort_key\<close> is.
\<close>

definition generate_alerts ::
  "runtime \<Rightarrow> pydict list \<Rightarrow> alert list \<times> (string \<times> pyerror) list" where
  "generate_alerts rt contracts =
     (case scan_contracts rt contracts ([], []) of
        (alerts, logged) \<Rightarrow> (sort_key severity_rank alerts, logged))"

section \<open>Benchmarking engine\<close>

subsection \<open>Strings and formatting\<close>

text \<open>
  What \<^verbatim>\<open>src/src/benchmarking.py\<close> does with strings. The strings of the model are
  ASCII. \<open>format_fixed d x\<close> is the format \<^verbatim>\<open>f"{x:.df}"\<close> of a float: its exact value
  rounded to \<open>d\<close> decimals, a tie going to the even digit, behind a minus sign when
  \<open>x\<close> is negative.
\<close>

fun nat_digits :: "nat \<Rightarrow> string" where
  "nat_digits n =
     (if n < 10 then [''0123456789'' ! n]
      else nat_digits (n div 10) @ [''0123456789'' ! (n mod 10)])"

declare nat_digits.simps [simp del]

definition format_fixed :: "nat \<Rightarrow> real \<Rightarrow> string" where
  "format_fixed d x =
     (let n = nat (round_half_even (\<bar>x\<bar> * 10 ^ d));
          decimals = nat_digits (n mod 10 ^ d)
      in (if x < 0 then ''-'' else [])
         @ nat_digits (n div 10 ^ d)
         @ (if d = 0 then [] else ''.'' @ replicate (d - length decimals) (CHR ''0'') @ decimals))"

text \<open>\<^verbatim>\<open>s.lower()\<close>.\<close>

definition str_lower :: "string \<Rightarrow> string" where
  "str_lower s =
     map (\<lambda>c. let n = (of_char c :: nat) in if 65 \<le> n \<and> n \<le> 90 then char_of (n + 32) else c) s"

text \<open>\<^verbatim>\<open>sub in s\<close> for two strings.\<close>

fun str_contains :: "string \<Rightarrow> string \<Rightarrow> bool" where
  "str_contains sub [] = (sub = [])"
| "str_contains sub (c # cs) = (take (length sub) (c # cs) = sub \<or> str_contains sub cs)"

text \<open>\<^verbatim>\<open>s.replace('_', ' ')\<close>.\<close>

definition underscores_to_spaces :: "string \<Rightarrow> string" where
  "underscores_to_spaces s = map (\<lambda>c. if c = CHR ''_'' then CHR '' '' else c) s"

text \<open>\<^verbatim>\<open>round(x, 2)\<close>, as \<open>py_round1\<close> is \<^verbatim>\<open>round(x, 1)\<close>.\<close>

definition round2 :: "real \<Rightarrow> real" where
  "round2 x = of_int (round_half_even (x * 100)) / 100"

fun py_round2 :: "runtime \<Rightarrow> num \<Rightarrow> num" where
  "py_round2 rt (NInt n) = NInt n"
| "py_round2 rt (NFloat x) = NFloat (fl rt (round2 x))"

subsection \<open>The benchmark tables\<close>

text \<open>
  An entry of \<^verbatim>\<open>COUPA_BENCHMARKS\<close>, a dictionary with the same seven keys in every
  entry. The tables are association lists in the order of the source, which is the
  order in which a Python dictionary is iterated.
\<close>

record benchmark_entry =
  bm_name :: string
  bm_category :: string
  bm_value :: num
  bm_unit :: string
  bm_direction :: string
  bm_description :: string
  bm_importance :: string

definition BENCHMARK_CATEGORIES :: "(string \<times> string) list" where
  "BENCHMARK_CATEGORIES =
     [(''spend_analysis'', ''Spend Analysis''),
      (''supplier_management'', ''Supplier Risk & Performance Management''),
      (''source_to_contract'', ''Source-to-Contract''),
      (''procurement'', ''Procurement''),
      (''cash_liquidity'', ''Cash & Liquidity Management''),
      (''e_invoicing'', ''E-Invoicing''),
      (''expenses'', ''Expenses''),
      (''payments'', ''Payments'')]"

definition COUPA_BENCHMARKS :: "runtime \<Rightarrow> (string \<times> benchmark_entry) list" where
  "COUPA_BENCHMARKS rt =
     [(''increase_visibility_managed_spend'',
       \<lparr>bm_name = ''Increase in Visibility of Managed Spend'',
        bm_category = ''spend_analysis'',
        bm_value = float_lit rt 24.4,
        bm_unit = ''percent'', bm_direction = ''higher'',
        bm_description = ''Percentage increase in spend visibility after implementation'',
        bm_importance = ''high''\<rparr>),
      (''supplier_info_mgmt_cycle_time'',
       \<lparr>bm_name = ''Supplier Information Management Cycle Time'',
        bm_category = ''supplier_management'',
        bm_value = float_lit rt 6.6,
        bm_unit = ''business_hours'', bm_direction = ''lower'',
        bm_description = ''Time to complete supplier onboarding/updates'',
        bm_importance = ''medium''\<rparr>),
      (''spend_with_primary_suppliers'',
       \<lparr>bm_name = ''Spend with Primary Suppliers'',
        bm_category = ''supplier_management'',
        bm_value = float_lit rt 17.5,
        bm_unit = ''percent'', bm_direction = ''higher'',
        bm_description = ''Percentage of spend concentrated with strategic suppliers'',
        bm_importance = ''medium''\<rparr>),
      (''contract_mgmt_cycle_time'',
       \<lparr>bm_name = ''Contract Management Cycle Time'',
        bm_category = ''source_to_contract'',
        bm_value = float_lit rt 11.3,
        bm_unit = ''business_days'', bm_direction = ''lower'',
        bm_description = ''Days from contract request to execution'',
        bm_importance = ''high''\<rparr>),
      (''on_contract_spend'',
       \<lparr>bm_name = ''On-Contract Spend'',
        bm_category = ''source_to_contract'',
        bm_value = float_lit rt 81.1,
        bm_unit = ''percent'', bm_direction = ''higher'',
        bm_description = ''Percentage of spend under contract coverage'',
        bm_importance = ''high''\<rparr>),
      (''structured_spend'',
       \<lparr>bm_name = ''Structured Spend'',
        bm_category = ''procurement'',
        bm_value = float_lit rt 55.3,
        bm_unit = ''percent'', bm_direction = ''higher'',
        bm_description = ''Spend processed through structured procurement channels'',
        bm_importance = ''high''\<rparr>),
      (''pre_approved_spend'',
       \<lparr>bm_name = ''Pre-Approved Spend'',
        bm_category = ''procurement'',
        bm_value = float_lit rt 96.4,
        bm_unit = ''percent'', bm_direction = ''higher'',
        bm_description = ''Spend that goes through proper approval workflows'',
        bm_importance = ''critical''\<rparr>),
      (''electronic_po_processing'',
       \<lparr>bm_name = ''Electronic PO Processing Rate'',
        bm_category = ''procurement'',
        bm_value = float_lit rt 98.8,
        bm_unit = ''percent'', bm_direction = ''higher'',
        bm_description = ''Purchase orders processed electronically'',
        bm_importance = ''medium''\<rparr>),
      (''requisition_to_order_cycle_time'',
       \<lparr>bm_name = ''Requisition-to-Order Cycle Time'',
        bm_category = ''procurement'',
        bm_value = float_lit rt 4.0,
        bm_unit = ''business_hours'', bm_direction = ''lower'',
        bm_description = ''Hours from requisition submission to PO creation'',
        bm_importance = ''high''\<rparr>),
      (''touchless_cash_reconciliation'',
       \<lparr>bm_name = ''Touchless Cash Flow Reconciliation'',
        bm_category = ''cash_liquidity'',
        bm_value = float_lit rt 99.97,
        bm_unit = ''percent'', bm_direction = ''higher'',
        bm_description = ''Automated cash reconciliation rate'',
        bm_importance = ''medium''\<rparr>),
      (''cash_concentration_index'',
       \<lparr>bm_name = ''Cash Concentration Index'',
        bm_category = ''cash_liquidity'',
        bm_value = float_lit rt 76.0,
        bm_unit = ''percent'', bm_direction = ''higher'',
        bm_description = ''Effectiveness of cash pooling and concentration'',
        bm_importance = ''medium''\<rparr>),
      (''electronic_invoice_processing'',
       \<lparr>bm_name = ''Electronic Invoice Processing Rate'',
        bm_category = ''e_invoicing'',
        bm_value = float_lit rt 86.2,
        bm_unit = ''percent'', bm_direction = ''higher'',
        bm_description = ''Invoices processed electronically'',
        bm_importance = ''high''\<rparr>),
      (''invoice_approval_cycle_time'',
       \<lparr>bm_name = ''Invoice Approval Cycle Time'',
        bm_category = ''e_invoicing'',
        bm_value = float_lit rt 10.5,
        bm_unit = ''business_hours'', bm_direction = ''lower'',
        bm_description = ''Hours to approve an invoice'',
        bm_importance = ''high''\<rparr>),
      (''first_time_match_rate'',
       \<lparr>bm_name = ''First-Time Match Rate'',
        bm_category = ''e_invoicing'',
        bm_value = float_lit rt 97.1,
        bm_unit = ''percent'', bm_direction = ''higher'',
        bm_description = ''Invoices that match PO on first attempt'',
        bm_importance = ''high''\<rparr>),
      (''expense_report_approval_cycle_time'',
       \<lparr>bm_name = ''Expense Report Approval Cycle Time'',
        bm_category = ''expenses'',
        bm_value = float_lit rt 7.5,
        bm_unit = ''business_hours'', bm_direction = ''lower'',
        bm_description = ''Hours to approve expense reports'',
        bm_importance = ''medium''\<rparr>),
      (''expense_lines_within_policy'',
       \<lparr>bm_name = ''Expense Lines Within Policy'',
        bm_category = ''expenses'',
        bm_value = float_lit rt 98.9,
        bm_unit = ''percent'', bm_direction = ''higher'',
        bm_description = ''Expense line items compliant with policy'',
        bm_importance = ''high''\<rparr>),
      (''invoices_paid_digitally'',
       \<lparr>bm_name = ''Invoices Paid Digitally'',
        bm_category = ''payments'',
        bm_value = float_lit rt 96.0,
        bm_unit = ''percent'', bm_direction = ''higher'',
        bm_description = ''Payments made through digital channels'',
        bm_importance = ''medium''\<rparr>),
      (''suppliers_using_digital_payments'',
       \<lparr>bm_name = ''Suppliers Using Digital Payments'',
        bm_category = ''payments'',
        bm_value = float_lit rt 96.2,
        bm_unit = ''percent'', bm_direction = ''higher'',
        bm_description = ''Suppliers accepting digital payments'',
        bm_importance = ''medium''\<rparr>),
      (''payment_batch_approval_cycle_time'',
       \<lparr>bm_name = ''Payment Batch Approval Cycle Time'',
        bm_category = ''payments'',
        bm_value = float_lit rt 4.2,
        bm_unit = ''business_hours'', bm_direction = ''lower'',
        bm_description = ''Hours to approve payment batches'',
        bm_importance = ''medium''\<rparr>)]"

definition IMPORTANCE_WEIGHTS :: "runtime \<Rightarrow> (string \<times> num) list" where
  "IMPORTANCE_WEIGHTS rt =
     [(''critical'', float_lit rt 2.0), (''high'', float_lit rt 1.5),
      (''medium'', float_lit rt 1.0), (''low'', float_lit rt 0.5)]"

text \<open>The dictionary \<^verbatim>\<open>category_weights\<close> of \<^verbatim>\<open>calculate_health_score\<close>.\<close>

definition category_weights :: "runtime \<Rightarrow> (string \<times> num) list" where
  "category_weights rt =
     [(''spend_analysis'', float_lit rt 1.0),
      (''supplier_management'', float_lit rt 1.0),
      (''source_to_contract'', float_lit rt 1.5),
      (''procurement'', float_lit rt 2.0),
      (''cash_liquidity'', float_lit rt 0.8),
      (''e_invoicing'', float_lit rt 1.2),
      (''expenses'', float_lit rt 0.8),
      (''payments'', float_lit rt 1.0)]"

subsection \<open>Result records\<close>

text \<open>
  The dataclasses \<^verbatim>\<open>KPIScore\<close>, \<^verbatim>\<open>CategoryScore\<close> and \<^verbatim>\<open>ProcurementHealthScore\<close>, and
  the dictionary that \<^verbatim>\<open>_calculate_peer_comparison\<close> returns. A field whose name an
  earlier record already has carries a prefix: \<open>category_score\<close> is the field
  \<^verbatim>\<open>score\<close> of a \<^verbatim>\<open>CategoryScore\<close>, \<open>health_rating\<close> the field \<^verbatim>\<open>rating\<close> of a
  \<^verbatim>\<open>ProcurementHealthScore\<close>.
\<close>

record KPIScore =
  kpi_id :: string
  name :: string
  category :: string
  actual_value :: num
  benchmark_value :: num
  unit :: string
  direction :: string
  score :: num
  gap :: num
  gap_percent :: num
  rating :: string
  recommendation :: string

record CategoryScore =
  category_id :: string
  category_name :: string
  category_score :: num
  kpi_scores :: "KPIScore list"
  strengths :: "string list"
  improvement_areas :: "string list"

record PeerComparison =
  rank :: nat
  total_peers :: nat
  percentile :: num
  peer_average :: num
  peer_median :: num
  vs_average :: num

record ProcurementHealthScore =
  overall_score :: num
  grade :: string
  health_rating :: string
  category_scores :: "(string \<times> CategoryScore) list"
  top_strengths :: "string list"
  priority_improvements :: "string list"
  peer_comparison :: "PeerComparison option"
  calculated_at :: int

subsection \<open>Scoring one KPI\<close>

text \<open>
  \<^verbatim>\<open>_generate_recommendation\<close>. It looks the KPI up again, which raises \<^verbatim>\<open>KeyError\<close>
  for an identifier that is not in the table.
\<close>

definition generate_recommendation ::
  "runtime \<Rightarrow> string \<Rightarrow> num \<Rightarrow> num \<Rightarrow> string \<Rightarrow> string \<Rightarrow> pyerror + string" where
  "generate_recommendation rt kid actual bench dir rat =
     (if rat \<in> set [''Excellent'', ''Good'']
      then Inr ''Maintain current performance. Consider documenting best practices.''
      else
        (case map_of (COUPA_BENCHMARKS rt) kid of
           None \<Rightarrow> Inl (KeyError kid)
         | Some kpi \<Rightarrow>
             if dir = ''higher'' then
               (let g = py_sub rt bench actual
                in if str_contains ''cycle_time'' (str_lower kid)
                   then Inr (''Reduce '' @ bm_name kpi @ '' by '' @ format_fixed 1 (to_float rt g)
                             @ '' '' @ underscores_to_spaces (bm_unit kpi)
                             @ '' to meet benchmark.'')
                   else Inr (''Increase '' @ bm_name kpi @ '' by '' @ format_fixed 1 (to_float rt g)
                             @ ''% to reach the industry benchmark of '' @ num_str rt bench
                             @ ''%.''))
             else
               (let g = py_sub rt actual bench
                in Inr (''Reduce '' @ bm_name kpi @ '' by '' @ format_fixed 1 (to_float rt g)
                        @ '' '' @ underscores_to_spaces (bm_unit kpi)
                        @ '' to meet industry best practices.''))))"

text \<open>
  The first half of \<^verbatim>\<open>score_kpi\<close>: the gap, the gap in percent and the score before
  rounding. The only division that nothing guards is \<^verbatim>\<open>actual_value / benchmark\<close> of
  the branch for a KPI where higher is better.
\<close>

definition kpi_gap_score ::
  "runtime \<Rightarrow> string \<Rightarrow> num \<Rightarrow> num \<Rightarrow> pyerror + (num \<times> num \<times> num)" where
  "kpi_gap_score rt dir actual bench =
     (if dir = ''higher'' then
        (let g = py_sub rt actual bench;
             gp = (if 0 < num_val bench then py_mul rt (true_div rt g bench) (NInt 100)
                   else NInt 0)
         in if num_val bench \<le> num_val actual
            then Inr (g, gp, py_min (NInt 100) (py_add rt (NInt 100) (py_mul rt gp (float_lit rt 0.1))))
            else (case py_truediv rt actual bench of
                    Inl e \<Rightarrow> Inl e
                  | Inr q \<Rightarrow> Inr (g, gp, py_max (NInt 0) (py_mul rt q (NInt 100)))))
      else
        (let g = py_sub rt bench actual;
             gp = (if 0 < num_val bench then py_mul rt (true_div rt g bench) (NInt 100)
                   else NInt 0)
         in if num_val actual \<le> num_val bench
            then Inr (g, gp, py_min (NInt 100) (py_add rt (NInt 100) (py_mul rt gp (float_lit rt 0.1))))
            else if 0 < num_val actual
            then Inr (g, gp, py_max (NInt 0) (py_mul rt (true_div rt bench actual) (NInt 100)))
            else Inr (g, gp, NInt 0)))"

text \<open>The rating of a score.\<close>

definition kpi_rating :: "num \<Rightarrow> string" where
  "kpi_rating s =
     (if 90 \<le> num_val s then ''Excellent''
      else if 75 \<le> num_val s then ''Good''
      else if 60 \<le> num_val s then ''Fair''
      else if 40 \<le> num_val s then ''Poor''
      else ''Critical'')"

text \<open>\<^verbatim>\<open>score_kpi\<close>, for an actual value that is a number.\<close>

definition score_kpi :: "runtime \<Rightarrow> string \<Rightarrow> num \<Rightarrow> pyerror + KPIScore" where
  "score_kpi rt kid actual =
     (case map_of (COUPA_BENCHMARKS rt) kid of
        None \<Rightarrow> Inl (ValueError (''Unknown KPI: '' @ kid))
      | Some kpi \<Rightarrow>
          (case kpi_gap_score rt (bm_direction kpi) actual (bm_value kpi) of
             Inl e \<Rightarrow> Inl e
           | Inr (g, gp, s) \<Rightarrow>
               (case generate_recommendation rt kid actual (bm_value kpi) (bm_direction kpi)
                       (kpi_rating s) of
                  Inl e \<Rightarrow> Inl e
                | Inr rec \<Rightarrow>
                    Inr \<lparr>kpi_id = kid, name = bm_name kpi, category = bm_category kpi,
                         actual_value = actual, benchmark_value = bm_value kpi,
                         unit = bm_unit kpi, direction = bm_direction kpi,
                         score = py_round1 rt s, gap = py_round2 rt g,
                         gap_percent = py_round1 rt gp, rating = kpi_rating s,
                         recommendation = rec\<rparr>)))"

subsection \<open>Scoring a category\<close>

text \<open>
  The loop of \<^verbatim>\<open>score_category\<close> over the KPIs of the category; the state is
  \<^verbatim>\<open>kpi_scores\<close>, \<^verbatim>\<open>weighted_sum\<close> and \<^verbatim>\<open>total_weight\<close>. An exception of \<^verbatim>\<open>score_kpi\<close>
  leaves the loop.
\<close>

fun category_loop ::
  "runtime \<Rightarrow> (string \<rightharpoonup> num) \<Rightarrow> (string \<times> benchmark_entry) list
     \<Rightarrow> KPIScore list \<times> num \<times> num \<Rightarrow> pyerror + (KPIScore list \<times> num \<times> num)" where
  "category_loop rt kpi_values [] st = Inr st"
| "category_loop rt kpi_values ((kid, kpi) # rest) (scores, weighted_sum, total_weight) =
     (case kpi_values kid of
        None \<Rightarrow> category_loop rt kpi_values rest (scores, weighted_sum, total_weight)
      | Some v \<Rightarrow>
          (case score_kpi rt kid v of
             Inl e \<Rightarrow> Inl e
           | Inr ks \<Rightarrow>
               (let weight = (case map_of (IMPORTANCE_WEIGHTS rt) (bm_importance kpi) of
                                None \<Rightarrow> float_lit rt 1.0 | Some w \<Rightarrow> w)
                in category_loop rt kpi_values rest
                     (scores @ [ks], py_add rt weighted_sum (py_mul rt (score ks) weight),
                      py_add rt total_weight weight))))"

definition score_category ::
  "runtime \<Rightarrow> string \<Rightarrow> (string \<rightharpoonup> num) \<Rightarrow> pyerror + CategoryScore" where
  "score_category rt cid kpi_values =
     (case category_loop rt kpi_values
             (filter (\<lambda>(k, v). bm_category v = cid) (COUPA_BENCHMARKS rt))
             ([], NInt 0, NInt 0) of
        Inl e \<Rightarrow> Inl e
      | Inr (scores, weighted_sum, total_weight) \<Rightarrow>
          Inr \<lparr>category_id = cid,
               category_name = (case map_of BENCHMARK_CATEGORIES cid of
                                  None \<Rightarrow> cid | Some n \<Rightarrow> n),
               category_score =
                 py_round1 rt (if 0 < num_val total_weight
                               then true_div rt weighted_sum total_weight else NInt 0),
               kpi_scores = scores,
               strengths = map name (filter (\<lambda>s. rating s \<in> set [''Excellent'', ''Good'']) scores),
               improvement_areas =
                 map name (filter (\<lambda>s. rating s \<in> set [''Poor'', ''Critical'']) scores)\<rparr>)"

subsection \<open>Peer comparison\<close>

text \<open>
  The argument \<^verbatim>\<open>peer_data\<close>: a dictionary whose values are lists of numbers, or
  \<^verbatim>\<open>None\<close>. The list \<^verbatim>\<open>peer_data['scores']\<close> belongs to the caller, so the functions
  that touch it return the dictionary as it is after the call.
\<close>

type_synonym peer_dict = "string \<rightharpoonup> num list"

text \<open>\<^verbatim>\<open>xs.index(v)\<close>: the first position whose element equals \<open>v\<close>.\<close>

fun list_index :: "num list \<Rightarrow> num \<Rightarrow> pyerror + nat" where
  "list_index [] v = Inl (ValueError ''not in list'')"
| "list_index (x # xs) v =
     (if num_val x = num_val v then Inr 0
      else (case list_index xs v of Inl e \<Rightarrow> Inl e | Inr i \<Rightarrow> Inr (Suc i)))"

text \<open>\<^verbatim>\<open>sum(xs)\<close>.\<close>

definition py_sum :: "runtime \<Rightarrow> num list \<Rightarrow> num" where
  "py_sum rt xs = foldl (py_add rt) (NInt 0) xs"

text \<open>\<^verbatim>\<open>xs[i]\<close>.\<close>

definition list_get :: "num list \<Rightarrow> nat \<Rightarrow> pyerror + num" where
  "list_get xs i = (if i < length xs then Inr (xs ! i) else Inl IndexError)"

text \<open>
  \<^verbatim>\<open>_calculate_peer_comparison\<close>. With the key \<^verbatim>\<open>scores\<close> present, \<^verbatim>\<open>peer_scores\<close> is the
  caller's list itself: \<^verbatim>\<open>append\<close> and \<^verbatim>\<open>sort(reverse=True)\<close> change it in place.
  \<^verbatim>\<open>list.sort\<close> is stable, also with \<^verbatim>\<open>reverse=True\<close>.
\<close>

definition calculate_peer_comparison ::
  "runtime \<Rightarrow> num \<Rightarrow> peer_dict \<Rightarrow> pyerror + (PeerComparison option \<times> peer_dict)" where
  "calculate_peer_comparison rt sc peer_data =
     (case peer_data ''scores'' of
        None \<Rightarrow> Inr (None, peer_data)
      | Some [] \<Rightarrow> Inr (None, peer_data)
      | Some (p # ps) \<Rightarrow>
          (let peer_scores = sort_key (\<lambda>x. - num_val x) ((p # ps) @ [sc]);
               peer_data' = peer_data(''scores'' \<mapsto> peer_scores);
               n = length peer_scores
           in case list_index peer_scores sc of
                Inl e \<Rightarrow> Inl e
              | Inr i \<Rightarrow>
                 (case py_truediv rt (NInt (int n - int (i + 1))) (NInt (int n)) of
                    Inl e \<Rightarrow> Inl e
                  | Inr ratio \<Rightarrow>
                     (case py_truediv rt (py_sum rt peer_scores) (NInt (int n)) of
                        Inl e \<Rightarrow> Inl e
                      | Inr avg \<Rightarrow>
                         (case list_get peer_scores (n div 2) of
                            Inl e \<Rightarrow> Inl e
                          | Inr med \<Rightarrow>
                             Inr (Some \<lparr>rank = i + 1, total_peers = n,
                                        percentile = py_round1 rt (py_mul rt ratio (NInt 100)),
                                        peer_average = py_round1 rt avg,
                                        peer_median = py_round1 rt med,
                                        vs_average = py_round1 rt (py_sub rt sc avg)\<rparr>,
                                  peer_data'))))))"

subsection \<open>The health score\<close>

text \<open>The loop over the categories: \<^verbatim>\<open>category_scores\<close> and \<^verbatim>\<open>all_kpi_scores\<close>.\<close>

fun health_loop ::
  "runtime \<Rightarrow> (string \<rightharpoonup> num) \<Rightarrow> string list
     \<Rightarrow> (string \<times> CategoryScore) list \<times> KPIScore list
     \<Rightarrow> pyerror + ((string \<times> CategoryScore) list \<times> KPIScore list)" where
  "health_loop rt kpi_values [] st = Inr st"
| "health_loop rt kpi_values (cid # rest) (cat_scores, all_kpi_scores) =
     (case score_category rt cid kpi_values of
        Inl e \<Rightarrow> Inl e
      | Inr cs \<Rightarrow>
          health_loop rt kpi_values rest
            (cat_scores @ [(cid, cs)], all_kpi_scores @ kpi_scores cs))"

text \<open>The loop that weighs the categories that have data.\<close>

fun weigh_categories ::
  "runtime \<Rightarrow> (string \<times> CategoryScore) list \<Rightarrow> num \<times> num \<Rightarrow> num \<times> num" where
  "weigh_categories rt [] st = st"
| "weigh_categories rt ((cid, cs) # rest) (weighted_sum, total_weight) =
     (let weight = (case map_of (category_weights rt) cid of
                      None \<Rightarrow> float_lit rt 1.0 | Some w \<Rightarrow> w)
      in if kpi_scores cs \<noteq> []
         then weigh_categories rt rest
                (py_add rt weighted_sum (py_mul rt (category_score cs) weight),
                 py_add rt total_weight weight)
         else weigh_categories rt rest (weighted_sum, total_weight))"

definition grade_rating :: "num \<Rightarrow> string \<times> string" where
  "grade_rating s =
     (if 90 \<le> num_val s then (''A'', ''Excellent'')
      else if 80 \<le> num_val s then (''B'', ''Good'')
      else if 70 \<le> num_val s then (''C'', ''Fair'')
      else if 60 \<le> num_val s then (''D'', ''Poor'')
      else (''F'', ''Critical''))"

text \<open>
  \<^verbatim>\<open>calculate_health_score\<close>. The result is the \<^verbatim>\<open>ProcurementHealthScore\<close> together
  with \<^verbatim>\<open>peer_data\<close> as the caller finds it after the call. \<^verbatim>\<open>if peer_data\<close> is false for
  \<^verbatim>\<open>None\<close> and for an empty dictionary. \<^verbatim>\<open>sorted(..., reverse=True)\<close> keeps the order of
  elements with equal keys.
\<close>

definition calculate_health_score ::
  "runtime \<Rightarrow> (string \<rightharpoonup> num) \<Rightarrow> peer_dict option
     \<Rightarrow> pyerror + (ProcurementHealthScore \<times> peer_dict option)" where
  "calculate_health_score rt kpi_values peer_data =
     (case health_loop rt kpi_values (map fst BENCHMARK_CATEGORIES) ([], []) of
        Inl e \<Rightarrow> Inl e
      | Inr (cat_scores, all_kpi_scores) \<Rightarrow>
          (case weigh_categories rt cat_scores (NInt 0, NInt 0) of
             (weighted_sum, total_weight) \<Rightarrow>
               (let overall = (if 0 < num_val total_weight
                               then true_div rt weighted_sum total_weight else NInt 0);
                    sorted_scores = sort_key (\<lambda>s. - num_val (score s)) all_kpi_scores;
                    tops = map (\<lambda>s. name s @ '': '' @ format_fixed 0 (to_float rt (score s))
                                      @ ''/100'')
                             (filter (\<lambda>s. rating s \<in> set [''Excellent'', ''Good''])
                                (take 5 sorted_scores));
                    prios = take 5
                             (map (\<lambda>s. name s @ '': '' @ recommendation s)
                                (filter (\<lambda>s. rating s \<in> set [''Poor'', ''Critical''])
                                   sorted_scores))
                in case (case peer_data of
                           None \<Rightarrow> Inr (None, None)
                         | Some d \<Rightarrow>
                             if d = Map.empty then Inr (None, Some d)
                             else (case calculate_peer_comparison rt overall d of
                                     Inl e \<Rightarrow> Inl e
                                   | Inr (pc, d') \<Rightarrow> Inr (pc, Some d'))) of
                     Inl e \<Rightarrow> Inl e
                   | Inr (pc, peer_data') \<Rightarrow>
                       Inr (\<lparr>overall_score = py_round1 rt overall,
                             grade = fst (grade_rating overall),
                             health_rating = snd (grade_rating overall),
                             category_scores = cat_scores,
                             top_strengths = tops,
                             priority_improvements = prios,
                             peer_comparison = pc,
                             calculated_at = now rt\<rparr>,
                            peer_data'))))"

section \<open>Vocabulary of the properties\<close>

text \<open>
  Two contract records agree on the raw fields when they differ at most in the six
  fields that \<^verbatim>\<open>score_contract\<close> writes.
\<close>

definition agree_raw :: "pydict \<Rightarrow> pydict \<Rightarrow> bool" where
  "agree_raw c1 c2 = (\<forall>k. k \<notin> set derived_fields \<longrightarrow> c1 k = c2 k)"

text \<open>
  What the theorems about computed values assume of the rounding \<open>fl\<close>, and what
  rounding to the nearest binary double provides: an exact result whose magnitude lies
  between 2 to the power -1000 and 2 to the power 1000 is returned with a relative
  error of at most 2 to the power -53, and an integer of magnitude at most 2 to the
  power 53 is returned as it is.
\<close>

definition rounds_to_nearest :: "runtime \<Rightarrow> bool" where
  "rounds_to_nearest rt =
     ((\<forall>x. 1 / 2 ^ 1000 \<le> \<bar>x\<bar> \<and> \<bar>x\<bar> \<le> 2 ^ 1000 \<longrightarrow> \<bar>fl rt x - x\<bar> \<le> \<bar>x\<bar> / 2 ^ 53)
      \<and> (\<forall>n::int. \<bar>n\<bar> \<le> 2 ^ 53 \<longrightarrow> fl rt (of_int n) = of_int n))"

text \<open>
  The contract and the milestones of the examples: a 12 percent cost overrun, a 45-day
  extension of a 182-day schedule, insurance required and not verified, one milestone
  completed on time and one overdue.
\<close>

definition example_contract :: pydict where
  "example_contract =
     [''contract_id'' \<mapsto> PStr ''C-001'',
      ''original_amount'' \<mapsto> PInt 100000,
      ''current_amount'' \<mapsto> PInt 112000,
      ''start_date'' \<mapsto> PStr ''2024-01-01'',
      ''original_end_date'' \<mapsto> PStr ''2024-07-01'',
      ''current_end_date'' \<mapsto> PStr ''2024-08-15'',
      ''percent_complete'' \<mapsto> PInt 40,
      ''requires_insurance'' \<mapsto> PBool True]"

definition example_milestones :: "pydict list" where
  "example_milestones =
     [[''status'' \<mapsto> PStr ''Completed'', ''due_date'' \<mapsto> PStr ''2024-03-01'',
       ''completed_date'' \<mapsto> PStr ''2024-02-20''],
      [''status'' \<mapsto> PStr ''Overdue'', ''due_date'' \<mapsto> PStr ''2024-05-01'']]"

text \<open>
  The vendor score as the specification words it, in exact arithmetic: the mean of the
  health scores weighted by \<^verbatim>\<open>current_amount\<close>, the weight being 1 when the amount is
  missing and the health 50 when it is missing, rounded to one decimal; 50 for no
  contracts.
\<close>

definition claimed_weight :: "pydict \<Rightarrow> real" where
  "claimed_weight c =
     (case c ''current_amount'' of
        Some (PInt a) \<Rightarrow> of_int a | Some (PFloat a) \<Rightarrow> a | _ \<Rightarrow> 1)"

definition claimed_health :: "pydict \<Rightarrow> real" where
  "claimed_health c =
     (case c ''overall_health_score'' of
        Some (PInt h) \<Rightarrow> of_int h | Some (PFloat h) \<Rightarrow> h | _ \<Rightarrow> 50)"

definition claimed_vendor_score :: "pydict list \<Rightarrow> real" where
  "claimed_vendor_score contracts =
     (if contracts = [] then 50
      else round1 ((\<Sum>c\<leftarrow>contracts. claimed_health c * claimed_weight c)
                   / (\<Sum>c\<leftarrow>contracts. claimed_weight c)))"

text \<open>
  What the code takes instead: the weight of a contract is its amount, and 1 when the
  amount is absent, \<^verbatim>\<open>None\<close> or zero. \<open>vendor_numeric\<close> holds of a contract whose amount
  is a number, \<^verbatim>\<open>None\<close> or absent and whose health score is a number or absent;
  \<open>vendor_integral\<close> asks that the numbers be integers, and \<open>int_weight\<close> and
  \<open>int_health\<close> are then the weight and the health score.
\<close>

definition amount_weight :: "pydict \<Rightarrow> num" where
  "amount_weight c =
     (case c ''current_amount'' of
        Some (PInt a) \<Rightarrow> (if a = 0 then NInt 1 else NInt a)
      | Some (PFloat a) \<Rightarrow> (if a = 0 then NInt 1 else NFloat a)
      | _ \<Rightarrow> NInt 1)"

definition health_or_default :: "pydict \<Rightarrow> num" where
  "health_or_default c =
     (case c ''overall_health_score'' of
        Some (PInt h) \<Rightarrow> NInt h | Some (PFloat h) \<Rightarrow> NFloat h | _ \<Rightarrow> NInt 50)"

definition vendor_numeric :: "pydict \<Rightarrow> bool" where
  "vendor_numeric c =
     ((case c ''current_amount'' of
         None \<Rightarrow> True | Some PNone \<Rightarrow> True | Some (PInt a) \<Rightarrow> True | Some (PFloat a) \<Rightarrow> True
       | Some _ \<Rightarrow> False)
      \<and> (case c ''overall_health_score'' of
            None \<Rightarrow> True | Some (PInt h) \<Rightarrow> True | Some (PFloat h) \<Rightarrow> True | Some _ \<Rightarrow> False))"

definition vendor_integral :: "pydict \<Rightarrow> bool" where
  "vendor_integral c =
     ((case c ''current_amount'' of
         None \<Rightarrow> True | Some PNone \<Rightarrow> True | Some (PInt a) \<Rightarrow> True | Some _ \<Rightarrow> False)
      \<and> (case c ''overall_health_score'' of
            None \<Rightarrow> True | Some (PInt h) \<Rightarrow> True | Some _ \<Rightarrow> False))"

definition int_weight :: "pydict \<Rightarrow> int" where
  "int_weight c =
     (case c ''current_amount'' of Some (PInt a) \<Rightarrow> (if a = 0 then 1 else a) | _ \<Rightarrow> 1)"

definition int_health :: "pydict \<Rightarrow> int" where
  "int_health c = (case c ''overall_health_score'' of Some (PInt h) \<Rightarrow> h | _ \<Rightarrow> 50)"

text \<open>
  The alert generator, described by what it iterates over. \<open>fired rt c\<close> are the rules
  whose condition is true of the contract \<open>c\<close>, in the order of the table;
  \<open>alerts_in_order\<close> lists the alerts of all contracts in the order of iteration
  (contracts first, rules within one contract); \<open>faults_of\<close> and \<open>faults_in_order\<close>
  list, in the same order, the rules whose condition raised, with the exception.
\<close>

definition fired :: "runtime \<Rightarrow> pydict \<Rightarrow> alert_rule list" where
  "fired rt c = filter (\<lambda>r. condition r c = Inr True) (alert_rules rt)"

definition alerts_in_order :: "runtime \<Rightarrow> pydict list \<Rightarrow> alert list" where
  "alerts_in_order rt contracts = concat (map (\<lambda>c. map (make_alert rt c) (fired rt c)) contracts)"

definition faults_of :: "alert_rule list \<Rightarrow> pydict \<Rightarrow> (string \<times> pyerror) list" where
  "faults_of rules c =
     concat (map (\<lambda>r. case condition r c of Inl e \<Rightarrow> [(rule_id r, e)] | Inr b \<Rightarrow> []) rules)"

definition faults_in_order :: "runtime \<Rightarrow> pydict list \<Rightarrow> (string \<times> pyerror) list" where
  "faults_in_order rt contracts = concat (map (faults_of (alert_rules rt)) contracts)"

text \<open>
  Contracts for the examples: one whose \<^verbatim>\<open>original_amount\<close> is a string (both cost
  rules raise on it), one with a 25 % cost overrun and four change orders, one whose
  health score is 0 and one whose health score is 49.
\<close>

definition malformed_contract :: pydict where
  "malformed_contract =
     [''contract_id'' \<mapsto> PStr ''C-002'', ''original_amount'' \<mapsto> PStr ''n/a'',
      ''requires_insurance'' \<mapsto> PBool True]"

definition overrun_contract :: pydict where
  "overrun_contract =
     [''contract_id'' \<mapsto> PStr ''C-003'', ''original_amount'' \<mapsto> PInt 100000,
      ''current_amount'' \<mapsto> PInt 125000, ''change_order_count'' \<mapsto> PInt 4]"

definition zero_health_contract :: pydict where
  "zero_health_contract = [''contract_id'' \<mapsto> PStr ''C-007'', ''overall_health_score'' \<mapsto> PInt 0]"

definition low_health_contract :: pydict where
  "low_health_contract = [''contract_id'' \<mapsto> PStr ''C-008'', ''overall_health_score'' \<mapsto> PInt 49]"

text \<open>
  A peer dictionary for the example of the health score, and the same dictionary with
  the score 0 added to its list and the list sorted in descending order.
\<close>

definition peers_before :: peer_dict where
  "peers_before = [''scores'' \<mapsto> [NFloat 50, NFloat 80]]"

definition peers_after :: peer_dict where
  "peers_after = [''scores'' \<mapsto> [NFloat 80, NFloat 50, NInt 0]]"

section \<open>Properties\<close>

lemma risk_thresholds_values:
  "risk_thresholds ''critical'' = Some 30"
  "risk_thresholds ''high'' = Some 50"
  "risk_thresholds ''medium'' = Some 70"
  by (simp_all add: risk_thresholds_def)

subsection \<open>Rounding\<close>

lemma fl_close:
  assumes "rounds_to_nearest rt" and "1 / 1000 \<le> x" and "x \<le> 1000000"
  shows "\<bar>fl rt x - x\<bar> \<le> x / 10 ^ 15"
proof -
  have a: "1 / 2 ^ 1000 \<le> \<bar>x\<bar> \<and> \<bar>x\<bar> \<le> 2 ^ 1000"
  proof -
    have "(1::real) / 2 ^ 1000 \<le> 1 / 2 ^ 10" by (intro divide_left_mono power_increasing) simp_all
    also have "\<dots> \<le> 1 / 1000" by simp
    finally have l: "(1::real) / 2 ^ 1000 \<le> \<bar>x\<bar>" using assms(2) by simp
    have "(1000000::real) \<le> 2 ^ 20" by simp
    also have "\<dots> \<le> 2 ^ 1000" by (intro power_increasing) simp_all
    finally have "\<bar>x\<bar> \<le> 2 ^ 1000" using assms(2,3) by simp
    with l show ?thesis by simp
  qed
  have "\<bar>fl rt x - x\<bar> \<le> \<bar>x\<bar> / 2 ^ 53"
    using assms(1) a unfolding rounds_to_nearest_def by blast
  also have "\<dots> = x / 2 ^ 53" using assms(2) by simp
  also have "\<dots> \<le> x / 10 ^ 15" using assms(2) by (intro divide_left_mono) simp_all
  finally show ?thesis .
qed

lemma fl_int:
  assumes "rounds_to_nearest rt" and "\<bar>n\<bar> \<le> 2 ^ 53"
  shows "fl rt (of_int n) = of_int n"
  using assms unfolding rounds_to_nearest_def by blast

lemma fl_numeral_small:
  assumes "rounds_to_nearest rt"
  shows "fl rt 100 = 100" "fl rt 44 = 44" "fl rt 0 = 0"
  using fl_int [OF assms, of 100] fl_int [OF assms, of 44] fl_int [OF assms, of 0] by simp_all

lemma example_variance:
  assumes "rounds_to_nearest rt"
  shows "10 < num_val (cost_variance_pct rt (NInt 112000) (NInt 100000))"
    and "num_val (cost_variance_pct rt (NInt 112000) (NInt 100000)) \<le> 15"
proof -
  define d where "d = fl rt (3 / 25)"
  have "\<bar>d - 3 / 25\<bar> \<le> (3 / 25) / 10 ^ 15"
    unfolding d_def by (rule fl_close [OF assms]) simp_all
  moreover have "(3 / 25) / 10 ^ 15 \<le> (1 / 100 :: real)" by simp
  ultimately have "\<bar>d - 3 / 25\<bar> \<le> 1 / 100" by linarith
  then have d: "11 / 100 \<le> d" "d \<le> 13 / 100" by linarith+
  define v where "v = fl rt (d * 100)"
  have "\<bar>v - d * 100\<bar> \<le> (d * 100) / 10 ^ 15"
    unfolding v_def using d by (intro fl_close [OF assms]) simp_all
  moreover have "(d * 100) / 10 ^ 15 \<le> 1 / 100" using d by simp
  ultimately have "\<bar>v - d * 100\<bar> \<le> 1 / 100" by linarith
  then have v: "10 < v" "v \<le> 15" using d by linarith+
  have "num_val (cost_variance_pct rt (NInt 112000) (NInt 100000)) = v"
    by (simp add: cost_variance_pct_def v_def d_def fl_numeral_small [OF assms])
  with v show "10 < num_val (cost_variance_pct rt (NInt 112000) (NInt 100000))"
    and "num_val (cost_variance_pct rt (NInt 112000) (NInt 100000)) \<le> 15" by simp_all
qed


lemma cost_score_positive_original:
  assumes "num_of (por (dget contract ''original_amount'' (PInt 0)) (PInt 0)) = Inr orig"
    and "0 < num_val orig"
    and "num_of (por (dget contract ''current_amount'' (PInt 0)) (PInt 0)) = Inr cur"
  shows "calculate_cost_variance_score rt contract =
      (let variance_pct = cost_variance_pct rt cur orig
       in if num_val variance_pct \<le> 0 then Inr (NInt 100)
          else if num_val variance_pct \<le> 5 then Inr (NInt 95)
          else if num_val variance_pct \<le> 10 then Inr (NInt 85)
          else if num_val variance_pct \<le> 15 then Inr (NInt 70)
          else if num_val variance_pct \<le> 20 then Inr (NInt 55)
          else if num_val variance_pct \<le> 30 then Inr (NInt 40)
          else Inr (py_max (NInt 20) (py_sub rt (NInt 40) (py_sub rt variance_pct (NInt 30)))))"
  using assms by (simp add: calculate_cost_variance_score_def Let_def)

lemma read_original_positive:
  assumes "contract ''original_amount'' = Some v" and "num_of v = Inr orig" and "0 < num_val orig"
  shows "num_of (por (dget contract ''original_amount'' (PInt 0)) (PInt 0)) = Inr orig"
  using assms by (cases v) (auto simp: dget_def por_def split: if_splits)

lemma read_current:
  assumes "(\<exists>w. contract ''current_amount'' = Some w \<and> num_of w = Inr cur \<and> num_val cur \<noteq> 0) \<or>
     (cur = NInt 0 \<and>
      (contract ''current_amount'' = None \<or> contract ''current_amount'' = Some PNone \<or>
       contract ''current_amount'' = Some (PInt 0) \<or> contract ''current_amount'' = Some (PFloat 0)))"
  shows "num_of (por (dget contract ''current_amount'' (PInt 0)) (PInt 0)) = Inr cur"
  using assms
proof (elim disjE exE conjE)
  fix w assume "contract ''current_amount'' = Some w" "num_of w = Inr cur" "num_val cur \<noteq> 0"
  then show ?thesis by (cases w) (auto simp: dget_def por_def split: if_splits)
qed (simp_all add: dget_def por_def)

subsection \<open>Cost variance bands\<close>

text \<open>
  Claim C1. \<^verbatim>\<open>calculate_cost_variance_score\<close> returns 50 when \<^verbatim>\<open>original_amount\<close> is
  absent, \<^verbatim>\<open>None\<close> or not positive. Otherwise, with \<open>variance_pct\<close> the value Python
  computes for \<^verbatim>\<open>(current - original) / original * 100\<close> (a missing, \<^verbatim>\<open>None\<close> or zero
  current amount counting as 0), it returns 100 when \<open>variance_pct \<le> 0\<close>, 95 on
  \<open>(0, 5]\<close>, 85 on \<open>(5, 10]\<close>, 70 on \<open>(10, 15]\<close>, 55 on \<open>(15, 20]\<close>, 40 on \<open>(20, 30]\<close>
  and \<^verbatim>\<open>max(20, 40 - (variance_pct - 30))\<close> above 30. An original amount of 100000 with a
  current amount of 112000 scores 70 on every runtime that rounds to nearest.
\<close>

theorem calculate_cost_variance_score_bands:
  "((contract ''original_amount'' = None \<or> contract ''original_amount'' = Some PNone) \<longrightarrow>
      calculate_cost_variance_score rt contract = Inr (NInt 50)) \<and>
   (contract ''original_amount'' = Some v \<and> num_of v = Inr orig \<and> num_val orig \<le> 0 \<longrightarrow>
      calculate_cost_variance_score rt contract = Inr (NInt 50)) \<and>
   (contract ''original_amount'' = Some v \<and> num_of v = Inr orig \<and> 0 < num_val orig \<and>
    ((\<exists>w. contract ''current_amount'' = Some w \<and> num_of w = Inr cur \<and> num_val cur \<noteq> 0) \<or>
     (cur = NInt 0 \<and>
      (contract ''current_amount'' = None \<or> contract ''current_amount'' = Some PNone \<or>
       contract ''current_amount'' = Some (PInt 0) \<or> contract ''current_amount'' = Some (PFloat 0)))) \<longrightarrow>
      (let variance_pct = py_mul rt (true_div rt (py_sub rt cur orig) orig) (NInt 100);
           result = calculate_cost_variance_score rt contract
       in (num_val variance_pct \<le> 0 \<longrightarrow> result = Inr (NInt 100)) \<and>
          (0 < num_val variance_pct \<and> num_val variance_pct \<le> 5 \<longrightarrow> result = Inr (NInt 95)) \<and>
          (5 < num_val variance_pct \<and> num_val variance_pct \<le> 10 \<longrightarrow> result = Inr (NInt 85)) \<and>
          (10 < num_val variance_pct \<and> num_val variance_pct \<le> 15 \<longrightarrow> result = Inr (NInt 70)) \<and>
          (15 < num_val variance_pct \<and> num_val variance_pct \<le> 20 \<longrightarrow> result = Inr (NInt 55)) \<and>
          (20 < num_val variance_pct \<and> num_val variance_pct \<le> 30 \<longrightarrow> result = Inr (NInt 40)) \<and>
          (30 < num_val variance_pct \<longrightarrow>
             result = Inr (py_max (NInt 20)
                             (py_sub rt (NInt 40) (py_sub rt variance_pct (NInt 30))))))) \<and>
   (rounds_to_nearest rt \<longrightarrow>
      calculate_cost_variance_score rt
        [''original_amount'' \<mapsto> PInt 100000, ''current_amount'' \<mapsto> PInt 112000] = Inr (NInt 70))"
proof (intro conjI impI)
  assume "contract ''original_amount'' = None \<or> contract ''original_amount'' = Some PNone"
  then show "calculate_cost_variance_score rt contract = Inr (NInt 50)"
    by (auto simp: calculate_cost_variance_score_def dget_def por_def)
next
  assume "contract ''original_amount'' = Some v \<and> num_of v = Inr orig \<and> num_val orig \<le> 0"
  then show "calculate_cost_variance_score rt contract = Inr (NInt 50)"
    by (cases v) (auto simp: calculate_cost_variance_score_def dget_def por_def split: if_splits)
next
  assume a: "contract ''original_amount'' = Some v \<and> num_of v = Inr orig \<and> 0 < num_val orig \<and>
    ((\<exists>w. contract ''current_amount'' = Some w \<and> num_of w = Inr cur \<and> num_val cur \<noteq> 0) \<or>
     (cur = NInt 0 \<and>
      (contract ''current_amount'' = None \<or> contract ''current_amount'' = Some PNone \<or>
       contract ''current_amount'' = Some (PInt 0) \<or> contract ''current_amount'' = Some (PFloat 0))))"
  then have o: "num_of (por (dget contract ''original_amount'' (PInt 0)) (PInt 0)) = Inr orig"
    by (intro read_original_positive [of contract v]) simp_all
  from a have c: "num_of (por (dget contract ''current_amount'' (PInt 0)) (PInt 0)) = Inr cur"
    by (intro read_current) simp
  from a have p: "0 < num_val orig" by simp
  show "let variance_pct = py_mul rt (true_div rt (py_sub rt cur orig) orig) (NInt 100);
           result = calculate_cost_variance_score rt contract
       in (num_val variance_pct \<le> 0 \<longrightarrow> result = Inr (NInt 100)) \<and>
          (0 < num_val variance_pct \<and> num_val variance_pct \<le> 5 \<longrightarrow> result = Inr (NInt 95)) \<and>
          (5 < num_val variance_pct \<and> num_val variance_pct \<le> 10 \<longrightarrow> result = Inr (NInt 85)) \<and>
          (10 < num_val variance_pct \<and> num_val variance_pct \<le> 15 \<longrightarrow> result = Inr (NInt 70)) \<and>
          (15 < num_val variance_pct \<and> num_val variance_pct \<le> 20 \<longrightarrow> result = Inr (NInt 55)) \<and>
          (20 < num_val variance_pct \<and> num_val variance_pct \<le> 30 \<longrightarrow> result = Inr (NInt 40)) \<and>
          (30 < num_val variance_pct \<longrightarrow>
             result = Inr (py_max (NInt 20)
                             (py_sub rt (NInt 40) (py_sub rt variance_pct (NInt 30)))))"
    unfolding cost_score_positive_original [OF o p c] Let_def cost_variance_pct_def by auto
next
  assume r: "rounds_to_nearest rt"
  have "calculate_cost_variance_score rt
        [''original_amount'' \<mapsto> PInt 100000, ''current_amount'' \<mapsto> PInt 112000] =
      (let variance_pct = cost_variance_pct rt (NInt 112000) (NInt 100000)
       in if num_val variance_pct \<le> 0 then Inr (NInt 100)
          else if num_val variance_pct \<le> 5 then Inr (NInt 95)
          else if num_val variance_pct \<le> 10 then Inr (NInt 85)
          else if num_val variance_pct \<le> 15 then Inr (NInt 70)
          else if num_val variance_pct \<le> 20 then Inr (NInt 55)
          else if num_val variance_pct \<le> 30 then Inr (NInt 40)
          else Inr (py_max (NInt 20) (py_sub rt (NInt 40) (py_sub rt variance_pct (NInt 30)))))"
    by (rule cost_score_positive_original) (simp_all add: dget_def por_def)
  then show "calculate_cost_variance_score rt
        [''original_amount'' \<mapsto> PInt 100000, ''current_amount'' \<mapsto> PInt 112000] = Inr (NInt 70)"
    using example_variance [OF r] by (simp add: Let_def)
qed

lemma example_runtime_rounds: "rounds_to_nearest example_runtime"
  by (simp add: rounds_to_nearest_def example_runtime_def)

theorem calculate_cost_variance_score_bands_witness:
  "calculate_cost_variance_score example_runtime
     [''original_amount'' \<mapsto> PInt 200, ''current_amount'' \<mapsto> PInt 216] = Inr (NInt 85) \<and>
   calculate_cost_variance_score example_runtime
     [''original_amount'' \<mapsto> PInt 200, ''current_amount'' \<mapsto> PNone] = Inr (NInt 100) \<and>
   calculate_cost_variance_score example_runtime
     [''original_amount'' \<mapsto> PNone, ''current_amount'' \<mapsto> PInt 300] = Inr (NInt 50) \<and>
   calculate_cost_variance_score example_runtime
     [''original_amount'' \<mapsto> PFloat (- 5), ''current_amount'' \<mapsto> PInt 300] = Inr (NInt 50) \<and>
   calculate_cost_variance_score example_runtime
     [''original_amount'' \<mapsto> PInt 100000, ''current_amount'' \<mapsto> PInt 112000] = Inr (NInt 70)"
  using calculate_cost_variance_score_bands
          [of "[''original_amount'' \<mapsto> PInt 200, ''current_amount'' \<mapsto> PInt 216]"
              example_runtime "PInt 200" "NInt 200" "NInt 216"]
        calculate_cost_variance_score_bands
          [of "[''original_amount'' \<mapsto> PInt 200, ''current_amount'' \<mapsto> PNone]"
              example_runtime "PInt 200" "NInt 200" "NInt 0"]
        calculate_cost_variance_score_bands
          [of "[''original_amount'' \<mapsto> PNone, ''current_amount'' \<mapsto> PInt 300]"
              example_runtime "PNone" "NInt 0" "NInt 0"]
        calculate_cost_variance_score_bands
          [of "[''original_amount'' \<mapsto> PFloat (- 5), ''current_amount'' \<mapsto> PInt 300]"
              example_runtime "PFloat (- 5)" "NFloat (- 5)" "NInt 0"]
        example_runtime_rounds
  by (simp add: Let_def example_runtime_def)

subsection \<open>Risk tiers\<close>

text \<open>
  Claim C2. \<^verbatim>\<open>determine_risk_level\<close> sends every health score to exactly one of four
  tiers: below 30 to Critical, from 30 up to but excluding 50 to High, from 50 up to but
  excluding 70 to Medium, and everything else to Low. Each tier is returned on its band
  and nowhere else, so the bands neither overlap nor leave a gap. The scores 29.9, 30,
  49.9, 50, 69.9 and 70 fall in Critical, High, High, Medium, Medium and Low.
\<close>

theorem determine_risk_level_partition:
  "(determine_risk_level h = ''Critical'') = (h < 30) \<and>
   (determine_risk_level h = ''High'') = (30 \<le> h \<and> h < 50) \<and>
   (determine_risk_level h = ''Medium'') = (50 \<le> h \<and> h < 70) \<and>
   (determine_risk_level h = ''Low'') = (70 \<le> h) \<and>
   determine_risk_level 29.9 = ''Critical'' \<and>
   determine_risk_level 30 = ''High'' \<and>
   determine_risk_level 49.9 = ''High'' \<and>
   determine_risk_level 50 = ''Medium'' \<and>
   determine_risk_level 69.9 = ''Medium'' \<and>
   determine_risk_level 70 = ''Low''"
  by (simp add: determine_risk_level_def risk_thresholds_values)

theorem determine_risk_level_partition_witness:
  "determine_risk_level 42 = ''High'' \<and> determine_risk_level 12.5 \<noteq> ''High''"
  using determine_risk_level_partition [of 42] determine_risk_level_partition [of "12.5"]
  by simp

subsection \<open>Scoring a contract reads only raw fields\<close>

lemma agree_raw_dget:
  assumes "agree_raw c1 c2" and "k \<notin> set derived_fields"
  shows "dget c1 k = dget c2 k"
  using assms by (auto simp: agree_raw_def dget_def fun_eq_iff)

lemma agree_raw_upd:
  "k \<in> set derived_fields \<Longrightarrow> agree_raw (c(k \<mapsto> v)) c"
  by (auto simp: agree_raw_def)

lemma cost_agree:
  assumes "agree_raw c1 c2"
  shows "calculate_cost_variance_score rt c1 = calculate_cost_variance_score rt c2"
proof -
  have "dget c1 ''original_amount'' = dget c2 ''original_amount''"
       "dget c1 ''current_amount'' = dget c2 ''current_amount''"
    by (rule agree_raw_dget [OF assms], simp add: derived_fields_def)+
  then show ?thesis
    unfolding calculate_cost_variance_score_def by (simp only:)
qed

lemma schedule_agree:
  assumes "agree_raw c1 c2"
  shows "calculate_schedule_variance_score rt c1 = calculate_schedule_variance_score rt c2"
proof -
  have "dget c1 ''original_end_date'' = dget c2 ''original_end_date''"
       "dget c1 ''current_end_date'' = dget c2 ''current_end_date''"
       "dget c1 ''start_date'' = dget c2 ''start_date''"
    by (rule agree_raw_dget [OF assms], simp add: derived_fields_def)+
  then show ?thesis
    unfolding calculate_schedule_variance_score_def by (simp only:)
qed

lemma performance_agree:
  assumes "agree_raw c1 c2"
  shows "calculate_performance_score rt c1 ms = calculate_performance_score rt c2 ms"
proof -
  have "dget c1 ''percent_complete'' = dget c2 ''percent_complete''"
    by (rule agree_raw_dget [OF assms], simp add: derived_fields_def)
  then show ?thesis
    unfolding calculate_performance_score_def by (simp only:)
qed

lemma compliance_agree:
  assumes "agree_raw c1 c2"
  shows "calculate_compliance_score c1 = calculate_compliance_score c2"
proof -
  have "dget c1 ''requires_insurance'' = dget c2 ''requires_insurance''"
       "dget c1 ''insurance_verified'' = dget c2 ''insurance_verified''"
       "dget c1 ''requires_bond'' = dget c2 ''requires_bond''"
       "dget c1 ''bond_verified'' = dget c2 ''bond_verified''"
       "dget c1 ''board_approval_date'' = dget c2 ''board_approval_date''"
       "dget c1 ''award_date'' = dget c2 ''award_date''"
       "dget c1 ''current_amount'' = dget c2 ''current_amount''"
       "dget c1 ''is_sole_source'' = dget c2 ''is_sole_source''"
       "dget c1 ''justification'' = dget c2 ''justification''"
    by (rule agree_raw_dget [OF assms], simp add: derived_fields_def)+
  then show ?thesis
    unfolding calculate_compliance_score_def by (simp only:)
qed

lemma overall_agree:
  assumes "agree_raw c1 c2"
  shows "calculate_overall_health rt c1 ms = calculate_overall_health rt c2 ms"
  unfolding calculate_overall_health_def
  by (simp only: cost_agree [OF assms] schedule_agree [OF assms]
        performance_agree [OF assms] compliance_agree [OF assms])

lemma derived_upd_scores:
  assumes "k \<in> set derived_fields"
  shows "calculate_cost_variance_score rt (c(k \<mapsto> v)) = calculate_cost_variance_score rt c"
    and "calculate_schedule_variance_score rt (c(k \<mapsto> v)) = calculate_schedule_variance_score rt c"
    and "calculate_performance_score rt (c(k \<mapsto> v)) ms = calculate_performance_score rt c ms"
    and "calculate_compliance_score (c(k \<mapsto> v)) = calculate_compliance_score c"
    and "calculate_overall_health rt (c(k \<mapsto> v)) ms = calculate_overall_health rt c ms"
  using agree_raw_upd [OF assms, of c v]
  by (simp_all only: cost_agree schedule_agree performance_agree compliance_agree overall_agree)

lemma derived_fields_mem:
  "''cost_variance_score'' \<in> set derived_fields"
  "''schedule_variance_score'' \<in> set derived_fields"
  "''performance_score'' \<in> set derived_fields"
  "''compliance_score'' \<in> set derived_fields"
  "''overall_health_score'' \<in> set derived_fields"
  "''risk_level'' \<in> set derived_fields"
  by (simp_all add: derived_fields_def)

lemma num_of_pynum: "num_of (pynum v) = Inr v"
  by (cases v) simp_all

lemma score_contract_eq:
  assumes "calculate_cost_variance_score rt c = Inr v1"
    and "calculate_performance_score rt c ms = Inr v3"
    and "calculate_compliance_score c = Inr v4"
    and "calculate_overall_health rt c ms = Inr v5"
  shows "score_contract rt c ms =
           (c(''cost_variance_score'' \<mapsto> pynum v1,
              ''schedule_variance_score'' \<mapsto> pynum (calculate_schedule_variance_score rt c),
              ''performance_score'' \<mapsto> pynum v3,
              ''compliance_score'' \<mapsto> pynum v4,
              ''overall_health_score'' \<mapsto> pynum v5,
              ''risk_level'' \<mapsto> PStr (determine_risk_level (num_val v5))), None)"
  unfolding score_contract_def Let_def
  by (simp add: assms derived_fields_mem derived_upd_scores dget_def num_of_pynum)

lemma score_contract_returns:
  assumes "score_contract rt c ms = (c', None)"
  obtains v1 v3 v4 v5 where
    "calculate_cost_variance_score rt c = Inr v1"
    "calculate_performance_score rt c ms = Inr v3"
    "calculate_compliance_score c = Inr v4"
    "calculate_overall_health rt c ms = Inr v5"
proof -
  note d = derived_fields_mem derived_upd_scores
  from assms obtain v1 where 1: "calculate_cost_variance_score rt c = Inr v1"
    unfolding score_contract_def by (cases "calculate_cost_variance_score rt c") auto
  from assms 1 obtain v3 where 3: "calculate_performance_score rt c ms = Inr v3"
    unfolding score_contract_def Let_def
    by (cases "calculate_performance_score rt c ms") (auto simp: d)
  from assms 1 3 obtain v4 where 4: "calculate_compliance_score c = Inr v4"
    unfolding score_contract_def Let_def
    by (cases "calculate_compliance_score c") (auto simp: d)
  from assms 1 3 4 obtain v5 where 5: "calculate_overall_health rt c ms = Inr v5"
    unfolding score_contract_def Let_def
    by (cases "calculate_overall_health rt c ms") (auto simp: d)
  from 1 3 4 5 that show thesis by blast
qed

lemma score_contract_frame_lemma:
  "agree_raw (fst (score_contract rt c ms)) c"
  unfolding score_contract_def Let_def agree_raw_def
  by (auto simp: derived_fields_def split: sum.splits)

subsection \<open>The example contract, scored\<close>

lemmas iso_eval = iso_date_def digit_of_def is_leap_def days_in_month_def days_before_month_def
  days_before_year_def

lemmas num_eval = cost_variance_pct_def float_lit_def py_max_def py_min_def

lemma example_fl: "fl example_runtime x = x"
  by (simp add: example_runtime_def)

lemma example_cost: "calculate_cost_variance_score example_runtime example_contract = Inr (NInt 70)"
  by (simp add: calculate_cost_variance_score_def example_contract_def dget_def por_def
        num_eval example_fl)

lemma example_dates:
  "parse_prefix example_runtime 10 (PStr ''2024-01-01'') = Some (738885 * 86400000000)"
  "parse_prefix example_runtime 10 (PStr ''2024-07-01'') = Some (739067 * 86400000000)"
  "parse_prefix example_runtime 10 (PStr ''2024-08-15'') = Some (739112 * 86400000000)"
  "parse_prefix example_runtime 10 (PStr ''2024-03-01'') = Some (738945 * 86400000000)"
  "parse_prefix example_runtime 10 (PStr ''2024-02-20'') = Some (738935 * 86400000000)"
  by (simp_all add: parse_prefix_def example_runtime_def iso_eval)

lemma example_schedule: "calculate_schedule_variance_score example_runtime example_contract = NInt 50"
  by (simp add: calculate_schedule_variance_score_def example_contract_def dget_def por_def
        example_dates days_between_def schedule_band_def num_eval example_fl)

lemma example_base: "milestone_base_score example_runtime (Some example_milestones) = NFloat 25"
  by (simp add: milestone_base_score_def example_milestones_def milestone_step_def dget_def
        example_dates num_eval example_fl)

lemma example_performance:
  "calculate_performance_score example_runtime example_contract (Some example_milestones) = Inr (NFloat 29.5)"
  by (simp add: calculate_performance_score_def example_base example_contract_def dget_def por_def
        num_eval example_fl)

lemma example_compliance: "calculate_compliance_score example_contract = Inr (NInt 80)"
  by (simp add: calculate_compliance_score_def example_contract_def dget_def por_def)

lemma example_overall:
  "calculate_overall_health example_runtime example_contract (Some example_milestones) = Inr (NFloat 56.9)"
  by (simp add: calculate_overall_health_def example_cost example_schedule example_performance
        example_compliance health_weights_def round1_def round_half_even_def num_eval example_fl)

lemma example_scored:
  "score_contract example_runtime example_contract (Some example_milestones) =
     (example_contract
        (''cost_variance_score'' \<mapsto> PInt 70,
         ''schedule_variance_score'' \<mapsto> PInt 50,
         ''performance_score'' \<mapsto> PFloat 29.5,
         ''compliance_score'' \<mapsto> PInt 80,
         ''overall_health_score'' \<mapsto> PFloat 56.9,
         ''risk_level'' \<mapsto> PStr ''Medium''), None)"
  using score_contract_eq [OF example_cost example_performance example_compliance example_overall]
  by (simp add: example_schedule determine_risk_level_def risk_thresholds_values)

subsection \<open>Idempotence and frame of scoring\<close>

text \<open>
  Claim C3. \<^verbatim>\<open>score_contract\<close> is idempotent: when scoring a contract returns, scoring
  the returned record again with the same milestones returns the very same record, so
  its six derived fields are those of the first scoring. The derived fields never feed
  back: two records that differ only in derived fields get the same cost, schedule,
  performance, compliance and overall health scores.
\<close>

theorem score_contract_idempotent:
  "(score_contract rt contract milestones = (scored, None) \<longrightarrow>
      score_contract rt scored milestones = (scored, None)) \<and>
   ((\<forall>k. k \<notin> set derived_fields \<longrightarrow> c1 k = c2 k) \<longrightarrow>
      calculate_cost_variance_score rt c1 = calculate_cost_variance_score rt c2 \<and>
      calculate_schedule_variance_score rt c1 = calculate_schedule_variance_score rt c2 \<and>
      calculate_performance_score rt c1 milestones = calculate_performance_score rt c2 milestones \<and>
      calculate_compliance_score c1 = calculate_compliance_score c2 \<and>
      calculate_overall_health rt c1 milestones = calculate_overall_health rt c2 milestones)"
proof (intro conjI impI)
  assume a: "score_contract rt contract milestones = (scored, None)"
  then obtain v1 v3 v4 v5 where v:
    "calculate_cost_variance_score rt contract = Inr v1"
    "calculate_performance_score rt contract milestones = Inr v3"
    "calculate_compliance_score contract = Inr v4"
    "calculate_overall_health rt contract milestones = Inr v5"
    by (rule score_contract_returns)
  have "agree_raw scored contract"
    using score_contract_frame_lemma [of rt contract milestones] a by simp
  then have w:
    "calculate_cost_variance_score rt scored = Inr v1"
    "calculate_performance_score rt scored milestones = Inr v3"
    "calculate_compliance_score scored = Inr v4"
    "calculate_overall_health rt scored milestones = Inr v5"
    and s: "calculate_schedule_variance_score rt scored = calculate_schedule_variance_score rt contract"
    using v by (simp_all only: cost_agree performance_agree compliance_agree overall_agree
          schedule_agree)
  have e: "scored =
      contract(''cost_variance_score'' \<mapsto> pynum v1,
        ''schedule_variance_score'' \<mapsto> pynum (calculate_schedule_variance_score rt contract),
        ''performance_score'' \<mapsto> pynum v3,
        ''compliance_score'' \<mapsto> pynum v4,
        ''overall_health_score'' \<mapsto> pynum v5,
        ''risk_level'' \<mapsto> PStr (determine_risk_level (num_val v5)))"
    using a score_contract_eq [OF v] by simp
  have f: "scored ''cost_variance_score'' = Some (pynum v1)"
    "scored ''schedule_variance_score'' = Some (pynum (calculate_schedule_variance_score rt contract))"
    "scored ''performance_score'' = Some (pynum v3)"
    "scored ''compliance_score'' = Some (pynum v4)"
    "scored ''overall_health_score'' = Some (pynum v5)"
    "scored ''risk_level'' = Some (PStr (determine_risk_level (num_val v5)))"
    by (simp_all add: e)
  have "score_contract rt scored milestones =
      (scored(''cost_variance_score'' \<mapsto> pynum v1,
        ''schedule_variance_score'' \<mapsto> pynum (calculate_schedule_variance_score rt contract),
        ''performance_score'' \<mapsto> pynum v3,
        ''compliance_score'' \<mapsto> pynum v4,
        ''overall_health_score'' \<mapsto> pynum v5,
        ''risk_level'' \<mapsto> PStr (determine_risk_level (num_val v5))), None)"
    using score_contract_eq [OF w] s by simp
  also have "scored(''cost_variance_score'' \<mapsto> pynum v1,
        ''schedule_variance_score'' \<mapsto> pynum (calculate_schedule_variance_score rt contract),
        ''performance_score'' \<mapsto> pynum v3,
        ''compliance_score'' \<mapsto> pynum v4,
        ''overall_health_score'' \<mapsto> pynum v5,
        ''risk_level'' \<mapsto> PStr (determine_risk_level (num_val v5))) = scored"
    by (rule ext) (auto simp: f)
  finally show "score_contract rt scored milestones = (scored, None)" .
next
  assume "\<forall>k. k \<notin> set derived_fields \<longrightarrow> c1 k = c2 k"
  then have "agree_raw c1 c2" by (simp add: agree_raw_def)
  then show "calculate_cost_variance_score rt c1 = calculate_cost_variance_score rt c2"
    "calculate_schedule_variance_score rt c1 = calculate_schedule_variance_score rt c2"
    "calculate_performance_score rt c1 milestones = calculate_performance_score rt c2 milestones"
    "calculate_compliance_score c1 = calculate_compliance_score c2"
    "calculate_overall_health rt c1 milestones = calculate_overall_health rt c2 milestones"
    by (simp_all only: cost_agree schedule_agree performance_agree compliance_agree overall_agree)
qed

theorem score_contract_idempotent_witness:
  "score_contract example_runtime
     (example_contract
        (''cost_variance_score'' \<mapsto> PInt 70,
         ''schedule_variance_score'' \<mapsto> PInt 50,
         ''performance_score'' \<mapsto> PFloat 29.5,
         ''compliance_score'' \<mapsto> PInt 80,
         ''overall_health_score'' \<mapsto> PFloat 56.9,
         ''risk_level'' \<mapsto> PStr ''Medium''))
     (Some example_milestones) =
   score_contract example_runtime example_contract (Some example_milestones) \<and>
   calculate_overall_health example_runtime
     (example_contract(''overall_health_score'' \<mapsto> PInt 3)) (Some example_milestones) = Inr (NFloat 56.9)"
proof -
  have a: "\<forall>k. k \<notin> set derived_fields \<longrightarrow>
      (example_contract(''overall_health_score'' \<mapsto> PInt 3)) k = example_contract k"
    by (simp add: derived_fields_def)
  show ?thesis
    using score_contract_idempotent
            [of example_runtime example_contract "Some example_milestones" _
                "example_contract(''overall_health_score'' \<mapsto> PInt 3)" example_contract]
          example_scored a example_overall
    by simp
qed

text \<open>
  Claim C10. \<^verbatim>\<open>score_contract\<close> updates its argument in place and returns it; the first
  component is that dictionary after the call. Every key other than the six derived
  fields maps to the value it had before the call, no key other than those six is added
  or removed, and when the call returns the keys are the old ones together with the
  six derived fields.
\<close>

theorem score_contract_frame:
  "(\<forall>k. k \<notin> set derived_fields \<longrightarrow> fst (score_contract rt contract milestones) k = contract k) \<and>
   dom (fst (score_contract rt contract milestones)) - set derived_fields
     = dom contract - set derived_fields \<and>
   (snd (score_contract rt contract milestones) = None \<longrightarrow>
      dom (fst (score_contract rt contract milestones)) = dom contract \<union> set derived_fields)"
proof (intro conjI impI)
  show f: "\<forall>k. k \<notin> set derived_fields \<longrightarrow> fst (score_contract rt contract milestones) k = contract k"
    using score_contract_frame_lemma [of rt contract milestones] by (simp add: agree_raw_def)
  show "dom (fst (score_contract rt contract milestones)) - set derived_fields
     = dom contract - set derived_fields"
    using f by (auto simp: dom_def)
next
  assume "snd (score_contract rt contract milestones) = None"
  then have "score_contract rt contract milestones = (fst (score_contract rt contract milestones), None)"
    by (simp add: prod_eq_iff)
  then obtain v1 v3 v4 v5 where v:
    "calculate_cost_variance_score rt contract = Inr v1"
    "calculate_performance_score rt contract milestones = Inr v3"
    "calculate_compliance_score contract = Inr v4"
    "calculate_overall_health rt contract milestones = Inr v5"
    by (rule score_contract_returns)
  show "dom (fst (score_contract rt contract milestones)) = dom contract \<union> set derived_fields"
    unfolding score_contract_eq [OF v] by (auto simp: derived_fields_def)
qed

theorem score_contract_frame_witness:
  "fst (score_contract example_runtime example_contract (Some example_milestones))
     ''current_amount'' = Some (PInt 112000) \<and>
   fst (score_contract example_runtime example_contract (Some example_milestones))
     ''vendor_name'' = None \<and>
   dom (fst (score_contract example_runtime example_contract (Some example_milestones))) =
     dom example_contract \<union> set derived_fields"
proof -
  have k: "''current_amount'' \<notin> set derived_fields" "''vendor_name'' \<notin> set derived_fields"
    by (simp_all add: derived_fields_def)
  have v: "example_contract ''current_amount'' = Some (PInt 112000)"
    "example_contract ''vendor_name'' = None"
    by (simp_all add: example_contract_def)
  have n: "snd (score_contract example_runtime example_contract (Some example_milestones)) = None"
    by (simp add: example_scored)
  show ?thesis
    using score_contract_frame [of example_runtime example_contract "Some example_milestones"]
          k v n
    by simp
qed

subsection \<open>Vendor score\<close>

lemma vendor_loop_fold:
  assumes "\<forall>c\<in>set contracts. vendor_numeric c"
  shows "vendor_loop rt contracts (ws, tw) =
           Inr (foldl (\<lambda>s c. py_add rt s (py_mul rt (health_or_default c) (amount_weight c)))
                  ws contracts,
                foldl (\<lambda>s c. py_add rt s (amount_weight c)) tw contracts)"
  using assms
proof (induction contracts arbitrary: ws tw)
  case Nil
  then show ?case by simp
next
  case (Cons c cs)
  from Cons.prems have n: "vendor_numeric c" and r: "\<forall>c\<in>set cs. vendor_numeric c" by simp_all
  from n have h: "num_of (dget c ''overall_health_score'' (PInt 50)) = Inr (health_or_default c)"
    by (auto simp: vendor_numeric_def dget_def health_or_default_def
             split: option.splits pyval.splits)
  from n have a: "num_of (por (dget c ''current_amount'' (PInt 0)) (PInt 1)) = Inr (amount_weight c)"
    by (auto simp: vendor_numeric_def dget_def por_def amount_weight_def
             split: option.splits pyval.splits)
  show ?case
    by (simp add: h a Cons.IH [OF r])
qed

lemma integral_numeric: "vendor_integral c \<Longrightarrow> vendor_numeric c"
  by (auto simp: vendor_integral_def vendor_numeric_def split: option.splits pyval.splits)

lemma integral_values:
  assumes "vendor_integral c"
  shows "health_or_default c = NInt (int_health c)" and "amount_weight c = NInt (int_weight c)"
  using assms
  by (auto simp: vendor_integral_def health_or_default_def amount_weight_def int_health_def
        int_weight_def split: option.splits pyval.splits)

lemma fold_weighted_int:
  assumes "\<forall>c\<in>set contracts. vendor_integral c"
  shows "foldl (\<lambda>s c. py_add rt s (py_mul rt (health_or_default c) (amount_weight c)))
           (NInt a) contracts = NInt (a + (\<Sum>c\<leftarrow>contracts. int_health c * int_weight c))"
  using assms by (induction contracts arbitrary: a) (simp_all add: integral_values add.assoc)

lemma fold_weight_int:
  assumes "\<forall>c\<in>set contracts. vendor_integral c"
  shows "foldl (\<lambda>s c. py_add rt s (amount_weight c)) (NInt a) contracts
           = NInt (a + (\<Sum>c\<leftarrow>contracts. int_weight c))"
  using assms by (induction contracts arbitrary: a) (simp_all add: integral_values add.assoc)

text \<open>
  Claim C4, amended. \<^verbatim>\<open>calculate_vendor_score\<close> returns 50 for an empty contract list.
  For a non-empty list whose amounts and health scores are numbers (or absent, or for
  an amount \<^verbatim>\<open>None\<close>), each contract weighs its \<^verbatim>\<open>current_amount\<close>, or 1 when the amount
  is absent, \<^verbatim>\<open>None\<close> or zero, and a missing health score counts as 50. The weighted
  sum and the total weight are accumulated from left to right in Python's arithmetic;
  when the total weight is positive the result is \<^verbatim>\<open>round(x, 1)\<close> of their quotient, and
  50 otherwise. With integer amounts and health scores the two sums are exact, and the
  result is the double nearest to the one-decimal rounding of the double quotient. The
  contracts (100, 80) and (900, 40) score 44.0 on every runtime that rounds to nearest.
\<close>

theorem calculate_vendor_score_weighted_mean:
  "calculate_vendor_score rt vendor [] = Inr (NInt 50) \<and>
   ((\<forall>c\<in>set contracts. vendor_numeric c) \<and> contracts \<noteq> [] \<longrightarrow>
      calculate_vendor_score rt vendor contracts =
        Inr (let weighted_score =
                   foldl (\<lambda>s c. py_add rt s (py_mul rt (health_or_default c) (amount_weight c)))
                     (NInt 0) contracts;
                 total_weight = foldl (\<lambda>s c. py_add rt s (amount_weight c)) (NInt 0) contracts
             in if 0 < num_val total_weight
                then py_round1 rt (true_div rt weighted_score total_weight)
                else NInt 50)) \<and>
   ((\<forall>c\<in>set contracts. vendor_integral c) \<and> contracts \<noteq> [] \<longrightarrow>
      calculate_vendor_score rt vendor contracts =
        Inr (if 0 < (\<Sum>c\<leftarrow>contracts. int_weight c)
             then NFloat (fl rt (round1 (fl rt
                    (of_int (\<Sum>c\<leftarrow>contracts. int_health c * int_weight c)
                     / of_int (\<Sum>c\<leftarrow>contracts. int_weight c)))))
             else NInt 50)) \<and>
   (rounds_to_nearest rt \<longrightarrow>
      calculate_vendor_score rt vendor
        [[''current_amount'' \<mapsto> PInt 100, ''overall_health_score'' \<mapsto> PInt 80],
         [''current_amount'' \<mapsto> PInt 900, ''overall_health_score'' \<mapsto> PInt 40]] = Inr (NFloat 44))"
proof (intro conjI impI)
  show "calculate_vendor_score rt vendor [] = Inr (NInt 50)"
    by (simp add: calculate_vendor_score_def)
next
  assume "(\<forall>c\<in>set contracts. vendor_numeric c) \<and> contracts \<noteq> []"
  then show "calculate_vendor_score rt vendor contracts =
        Inr (let weighted_score =
                   foldl (\<lambda>s c. py_add rt s (py_mul rt (health_or_default c) (amount_weight c)))
                     (NInt 0) contracts;
                 total_weight = foldl (\<lambda>s c. py_add rt s (amount_weight c)) (NInt 0) contracts
             in if 0 < num_val total_weight
                then py_round1 rt (true_div rt weighted_score total_weight)
                else NInt 50)"
    by (simp add: calculate_vendor_score_def vendor_loop_fold Let_def)
next
  assume a: "(\<forall>c\<in>set contracts. vendor_integral c) \<and> contracts \<noteq> []"
  then have n: "\<forall>c\<in>set contracts. vendor_numeric c" by (simp add: integral_numeric)
  from a have i: "\<forall>c\<in>set contracts. vendor_integral c" by simp
  show "calculate_vendor_score rt vendor contracts =
        Inr (if 0 < (\<Sum>c\<leftarrow>contracts. int_weight c)
             then NFloat (fl rt (round1 (fl rt
                    (of_int (\<Sum>c\<leftarrow>contracts. int_health c * int_weight c)
                     / of_int (\<Sum>c\<leftarrow>contracts. int_weight c)))))
             else NInt 50)"
    using a
    by (simp add: calculate_vendor_score_def vendor_loop_fold [OF n] fold_weighted_int [OF i]
          fold_weight_int [OF i])
next
  assume r: "rounds_to_nearest rt"
  have f: "fl rt 44 = 44" by (rule fl_numeral_small [OF r])
  show "calculate_vendor_score rt vendor
        [[''current_amount'' \<mapsto> PInt 100, ''overall_health_score'' \<mapsto> PInt 80],
         [''current_amount'' \<mapsto> PInt 900, ''overall_health_score'' \<mapsto> PInt 40]] = Inr (NFloat 44)"
    by (simp add: calculate_vendor_score_def dget_def por_def round1_def round_half_even_def f)
qed


theorem calculate_vendor_score_weighted_mean_witness:
  "calculate_vendor_score example_runtime Map.empty
     [[''current_amount'' \<mapsto> PInt 0, ''overall_health_score'' \<mapsto> PInt 80],
      [''overall_health_score'' \<mapsto> PInt 20],
      [''current_amount'' \<mapsto> PInt 98]] = Inr (NFloat 50) \<and>
   calculate_vendor_score example_runtime Map.empty
     [[''current_amount'' \<mapsto> PFloat (- 5), ''overall_health_score'' \<mapsto> PInt 80]] = Inr (NInt 50) \<and>
   calculate_vendor_score example_runtime Map.empty
     [[''current_amount'' \<mapsto> PInt 100, ''overall_health_score'' \<mapsto> PInt 80],
      [''current_amount'' \<mapsto> PInt 900, ''overall_health_score'' \<mapsto> PInt 40]] = Inr (NFloat 44)"
proof -
  have i: "(\<forall>c\<in>set [[''current_amount'' \<mapsto> PInt 0, ''overall_health_score'' \<mapsto> PInt 80],
      [''overall_health_score'' \<mapsto> PInt 20],
      [''current_amount'' \<mapsto> PInt 98]]. vendor_integral c) \<and>
      [[''current_amount'' \<mapsto> PInt 0, ''overall_health_score'' \<mapsto> PInt 80],
      [''overall_health_score'' \<mapsto> PInt 20],
      [''current_amount'' \<mapsto> PInt 98]] \<noteq> []"
    by (simp add: vendor_integral_def)
  have n: "(\<forall>c\<in>set [[''current_amount'' \<mapsto> PFloat (- 5), ''overall_health_score'' \<mapsto> PInt 80]].
       vendor_numeric c) \<and>
      [[''current_amount'' \<mapsto> PFloat (- 5), ''overall_health_score'' \<mapsto> PInt 80]] \<noteq> []"
    by (simp add: vendor_numeric_def)
  show ?thesis
    using calculate_vendor_score_weighted_mean
            [of example_runtime Map.empty
               "[[''current_amount'' \<mapsto> PInt 0, ''overall_health_score'' \<mapsto> PInt 80],
      [''overall_health_score'' \<mapsto> PInt 20],
      [''current_amount'' \<mapsto> PInt 98]]"]
          calculate_vendor_score_weighted_mean
            [of example_runtime Map.empty
               "[[''current_amount'' \<mapsto> PFloat (- 5), ''overall_health_score'' \<mapsto> PInt 80]]"]
          i n example_runtime_rounds
    by (simp add: int_weight_def int_health_def amount_weight_def health_or_default_def
          round1_def round_half_even_def example_fl)
qed

text \<open>
  The claim as first stated gives a contract whose amount is present its amount as
  weight. An amount of zero is present, so the contracts (0, 80) and (100, 40) would
  score 40.0; the code weighs the first contract 1 and returns 40.4.
\<close>

theorem calculate_vendor_score_claim_counterexample:
  "calculate_vendor_score example_runtime Map.empty
     [[''current_amount'' \<mapsto> PInt 0, ''overall_health_score'' \<mapsto> PInt 80],
      [''current_amount'' \<mapsto> PInt 100, ''overall_health_score'' \<mapsto> PInt 40]] = Inr (NFloat 40.4) \<and>
   claimed_vendor_score
     [[''current_amount'' \<mapsto> PInt 0, ''overall_health_score'' \<mapsto> PInt 80],
      [''current_amount'' \<mapsto> PInt 100, ''overall_health_score'' \<mapsto> PInt 40]] = 40"
  by (simp add: calculate_vendor_score_def dget_def por_def round1_def round_half_even_def
        claimed_vendor_score_def claimed_health_def claimed_weight_def example_fl)

subsection \<open>Alert generation\<close>

text \<open>
  The two loops of \<^verbatim>\<open>generate_alerts\<close> in closed form: the alerts before sorting are
  those of the rules that fired, in iteration order, and the log holds the rules that
  raised.
\<close>

lemma check_rules_closed:
  "check_rules rt c rules (alerts, logged) =
     (alerts @ map (make_alert rt c) (filter (\<lambda>r. condition r c = Inr True) rules),
      logged @ faults_of rules c)"
proof (induction rules arbitrary: alerts logged)
  case Nil
  then show ?case by (simp add: faults_of_def)
next
  case (Cons r rs)
  show ?case
  proof (cases "condition r c")
    case (Inl e)
    then show ?thesis by (simp add: Cons.IH faults_of_def)
  next
    case (Inr b)
    then show ?thesis by (cases b) (simp_all add: Cons.IH faults_of_def)
  qed
qed

lemma scan_contracts_closed:
  "scan_contracts rt contracts (alerts, logged) =
     (alerts @ alerts_in_order rt contracts, logged @ faults_in_order rt contracts)"
proof (induction contracts arbitrary: alerts logged)
  case Nil
  then show ?case by (simp add: alerts_in_order_def faults_in_order_def)
next
  case (Cons c cs)
  show ?case
    by (simp add: check_rules_closed Cons.IH alerts_in_order_def faults_in_order_def fired_def)
qed

lemma generate_alerts_closed:
  "generate_alerts rt contracts =
     (sort_key severity_rank (alerts_in_order rt contracts), faults_in_order rt contracts)"
  by (simp add: generate_alerts_def scan_contracts_closed)

lemma severity_rank_values:
  "severity a = ''Critical'' \<Longrightarrow> severity_rank a = 0"
  "severity a = ''High'' \<Longrightarrow> severity_rank a = 1"
  "severity a = ''Medium'' \<Longrightarrow> severity_rank a = 2"
  "severity a = ''Low'' \<Longrightarrow> severity_rank a = 3"
  "severity a \<notin> {''Critical'', ''High'', ''Medium'', ''Low''} \<Longrightarrow> severity_rank a = 4"
  by (simp_all add: severity_rank_def severity_order_def)

lemmas rule_eval = cost_overrun_def schedule_delay_def expiring_soon_def no_recent_activity_def
  low_health_condition_def change_orders_condition_def insurance_condition_def dget_def por_def
  cost_variance_pct_def

lemma malformed_alerts:
  "map (make_alert example_runtime malformed_contract) (fired example_runtime malformed_contract) =
     [\<lparr>alert_id = ''C-002_insurance_expired'', contract_id = PStr ''C-002'',
       contract_title = PNone, vendor_name = PNone, alert_type = ''insurance_expired'',
       title = ''Insurance Not Verified'', severity = ''High'',
       generated_at = now example_runtime\<rparr>]"
  by (simp add: fired_def alert_rules_def malformed_contract_def rule_eval make_alert_def)

lemma malformed_faults:
  "faults_of (alert_rules example_runtime) malformed_contract =
     [(''cost_overrun_warning'', TypeError), (''cost_overrun_critical'', TypeError)]"
  by (simp add: faults_of_def alert_rules_def malformed_contract_def rule_eval)

lemma overrun_alerts:
  "map (make_alert example_runtime overrun_contract) (fired example_runtime overrun_contract) =
     [\<lparr>alert_id = ''C-003_cost_overrun_critical'', contract_id = PStr ''C-003'',
       contract_title = PNone, vendor_name = PNone, alert_type = ''cost_overrun_critical'',
       title = ''Critical Cost Overrun'', severity = ''Critical'',
       generated_at = now example_runtime\<rparr>,
      \<lparr>alert_id = ''C-003_multiple_change_orders'', contract_id = PStr ''C-003'',
       contract_title = PNone, vendor_name = PNone, alert_type = ''multiple_change_orders'',
       title = ''Excessive Change Orders'', severity = ''Medium'',
       generated_at = now example_runtime\<rparr>]"
  by (simp add: fired_def alert_rules_def overrun_contract_def rule_eval make_alert_def example_fl)

lemma overrun_faults: "faults_of (alert_rules example_runtime) overrun_contract = []"
  by (simp add: faults_of_def alert_rules_def overrun_contract_def rule_eval example_fl)


lemma example_alerts_in_order:
  "alerts_in_order example_runtime [malformed_contract, overrun_contract] =
     [\<lparr>alert_id = ''C-002_insurance_expired'', contract_id = PStr ''C-002'',
       contract_title = PNone, vendor_name = PNone, alert_type = ''insurance_expired'',
       title = ''Insurance Not Verified'', severity = ''High'',
       generated_at = now example_runtime\<rparr>,
      \<lparr>alert_id = ''C-003_cost_overrun_critical'', contract_id = PStr ''C-003'',
       contract_title = PNone, vendor_name = PNone, alert_type = ''cost_overrun_critical'',
       title = ''Critical Cost Overrun'', severity = ''Critical'',
       generated_at = now example_runtime\<rparr>,
      \<lparr>alert_id = ''C-003_multiple_change_orders'', contract_id = PStr ''C-003'',
       contract_title = PNone, vendor_name = PNone, alert_type = ''multiple_change_orders'',
       title = ''Excessive Change Orders'', severity = ''Medium'',
       generated_at = now example_runtime\<rparr>]"
  by (simp add: alerts_in_order_def malformed_alerts overrun_alerts)

lemma zero_health_alerts: "fired example_runtime zero_health_contract = []"
  by (simp add: fired_def alert_rules_def zero_health_contract_def rule_eval)

lemma low_health_alerts:
  "map (make_alert example_runtime low_health_contract) (fired example_runtime low_health_contract) =
     [\<lparr>alert_id = ''C-008_low_health_score'', contract_id = PStr ''C-008'',
       contract_title = PNone, vendor_name = PNone, alert_type = ''low_health_score'',
       title = ''Low Health Score'', severity = ''High'',
       generated_at = now example_runtime\<rparr>]"
  by (simp add: fired_def alert_rules_def low_health_contract_def rule_eval make_alert_def)

lemma zero_health_faults: "faults_of (alert_rules example_runtime) zero_health_contract = []"
  by (simp add: faults_of_def alert_rules_def zero_health_contract_def rule_eval)

text \<open>
  Claim C5. For every list of contracts the alerts returned by \<^verbatim>\<open>generate_alerts\<close>
  are sorted ascending by severity rank, and the sort is stable: for each rank \<open>k\<close> the
  returned alerts of rank \<open>k\<close> are the alerts of rank \<open>k\<close> in the order in which their
  contracts, and within a contract their rules, were iterated. The rank of an alert is
  0 for Critical, 1 for High, 2 for Medium, 3 for Low and 4 for any other severity.
\<close>

theorem generate_alerts_sorted_stable:
  "sorted (map severity_rank (fst (generate_alerts rt contracts))) \<and>
   (\<forall>k. filter (\<lambda>a. severity_rank a = k) (fst (generate_alerts rt contracts)) =
        filter (\<lambda>a. severity_rank a = k) (alerts_in_order rt contracts)) \<and>
   (severity a = ''Critical'' \<longrightarrow> severity_rank a = 0) \<and>
   (severity a = ''High'' \<longrightarrow> severity_rank a = 1) \<and>
   (severity a = ''Medium'' \<longrightarrow> severity_rank a = 2) \<and>
   (severity a = ''Low'' \<longrightarrow> severity_rank a = 3) \<and>
   (severity a \<notin> {''Critical'', ''High'', ''Medium'', ''Low''} \<longrightarrow> severity_rank a = 4)"
  by (simp add: generate_alerts_closed sort_key_stable severity_rank_values)

theorem generate_alerts_sorted_stable_witness:
  "sorted (map severity_rank
     (fst (generate_alerts example_runtime [malformed_contract, overrun_contract]))) \<and>
   map alert_id (filter (\<lambda>a. severity_rank a = 1)
     (fst (generate_alerts example_runtime [malformed_contract, overrun_contract])))
     = [''C-002_insurance_expired''] \<and>
   severity_rank (hd (alerts_in_order example_runtime [malformed_contract, overrun_contract])) = 1"
  using generate_alerts_sorted_stable
          [of example_runtime "[malformed_contract, overrun_contract]"
              "hd (alerts_in_order example_runtime [malformed_contract, overrun_contract])"]
  by (simp add: example_alerts_in_order severity_rank_def severity_order_def)

text \<open>
  Claim C6. \<^verbatim>\<open>generate_alerts\<close> always returns (the model is a total function whose
  result is the alert list and the log). An exception raised by the condition of one
  rule on one contract is caught and logged: the log is exactly the list of the
  rule/contract pairs whose condition raised. The returned alerts are exactly the
  alerts of the pairs whose condition evaluated to true: each such pair contributes its
  alert, each returned alert comes from such a pair, and the number of alerts is the
  number of such pairs, whatever the other rules and contracts did.
\<close>

theorem generate_alerts_isolates_faults:
  "fst (generate_alerts rt contracts) = sort_key severity_rank (alerts_in_order rt contracts) \<and>
   snd (generate_alerts rt contracts) = faults_in_order rt contracts \<and>
   (\<forall>c\<in>set contracts. \<forall>r\<in>set (alert_rules rt).
      condition r c = Inr True \<longrightarrow> make_alert rt c r \<in> set (fst (generate_alerts rt contracts))) \<and>
   (\<forall>a\<in>set (fst (generate_alerts rt contracts)).
      \<exists>c\<in>set contracts. \<exists>r\<in>set (alert_rules rt). condition r c = Inr True \<and> a = make_alert rt c r) \<and>
   length (fst (generate_alerts rt contracts)) =
     (\<Sum>c\<leftarrow>contracts. length (filter (\<lambda>r. condition r c = Inr True) (alert_rules rt)))"
  by (auto simp: generate_alerts_closed alerts_in_order_def fired_def length_concat comp_def)

theorem generate_alerts_isolates_faults_witness:
  "map alert_id (fst (generate_alerts example_runtime [malformed_contract, overrun_contract])) =
     [''C-003_cost_overrun_critical'', ''C-002_insurance_expired'',
      ''C-003_multiple_change_orders''] \<and>
   snd (generate_alerts example_runtime [malformed_contract, overrun_contract]) =
     [(''cost_overrun_warning'', TypeError), (''cost_overrun_critical'', TypeError)]"
  using generate_alerts_isolates_faults [of example_runtime "[malformed_contract, overrun_contract]"]
  by (simp add: example_alerts_in_order faults_in_order_def malformed_faults overrun_faults
        severity_rank_def severity_order_def)

text \<open>
  Claim C7. The rule \<^verbatim>\<open>low_health_score\<close> reads the health score with
  \<^verbatim>\<open>(c.get('overall_health_score', 100) or 100) < 50\<close>, so a present score of 0 is
  falsy and replaced by 100: for the contract whose health score is 0 the condition is
  false and \<^verbatim>\<open>generate_alerts\<close> returns no alert (and logs nothing), while the contract
  whose health score is 49 gets the \<^verbatim>\<open>low_health_score\<close> alert.
\<close>

theorem low_health_score_skips_zero:
  "low_health_condition zero_health_contract = Inr False \<and>
   generate_alerts example_runtime [zero_health_contract] = ([], []) \<and>
   map alert_type (fst (generate_alerts example_runtime [low_health_contract]))
     = [''low_health_score'']"
proof -
  have "low_health_condition zero_health_contract = Inr False"
    by (simp add: low_health_condition_def zero_health_contract_def dget_def por_def)
  moreover have "generate_alerts example_runtime [zero_health_contract] = ([], [])"
    by (simp add: generate_alerts_closed alerts_in_order_def zero_health_alerts
          faults_in_order_def zero_health_faults)
  moreover have "map alert_type (fst (generate_alerts example_runtime [low_health_contract]))
     = [''low_health_score'']"
    by (simp add: generate_alerts_closed alerts_in_order_def low_health_alerts)
  ultimately show ?thesis by simp
qed

subsection \<open>Scoring a KPI\<close>








subsection \<open>The health score and the caller's peer data\<close>

text \<open>
  With no KPI values every category is scored without data, and the overall score is
  the integer 0.
\<close>

lemma category_loop_no_values:
  "category_loop rt Map.empty kpis st = Inr st"
proof (induction kpis)
  case Nil
  then show ?case by simp
next
  case (Cons p kpis)
  then show ?case by (cases p; cases st) simp
qed

lemma score_category_no_values:
  "\<exists>cs. score_category rt cid Map.empty = Inr cs \<and> kpi_scores cs = []"
  by (simp add: score_category_def category_loop_no_values)

lemma health_loop_no_values:
  assumes "kpi_scores ` snd ` set cat_scores \<subseteq> {[]}"
  shows "\<exists>cs. health_loop rt Map.empty cids (cat_scores, all_scores) = Inr (cs, all_scores) \<and>
           kpi_scores ` snd ` set cs \<subseteq> {[]}"
  using assms
proof (induction cids arbitrary: cat_scores)
  case Nil
  then show ?case by simp
next
  case (Cons cid cids)
  obtain c where c: "score_category rt cid Map.empty = Inr c" "kpi_scores c = []"
    using score_category_no_values by blast
  have "kpi_scores ` snd ` set (cat_scores @ [(cid, c)]) \<subseteq> {[]}"
    using Cons.prems c(2) by auto
  from Cons.IH [OF this] show ?case by (simp add: c)
qed

lemma weigh_categories_no_data:
  assumes "kpi_scores ` snd ` set cat_scores \<subseteq> {[]}"
  shows "weigh_categories rt cat_scores st = st"
  using assms
proof (induction cat_scores arbitrary: st)
  case Nil
  then show ?case by simp
next
  case (Cons p cat_scores)
  then show ?case by (cases p; cases st) (simp add: Let_def)
qed

lemma example_peer_comparison:
  "calculate_peer_comparison example_runtime (NInt 0) peers_before =
     Inr (Some \<lparr>rank = 3, total_peers = 3, percentile = NFloat 0, peer_average = NFloat 43.3,
                peer_median = NFloat 50, vs_average = NFloat (- 43.3)\<rparr>,
          peers_after)"
  by (simp add: calculate_peer_comparison_def peers_before_def peers_after_def Let_def
        py_truediv_def py_sum_def list_get_def example_fl round1_def round_half_even_def)

text \<open>
  Claim C9. \<^verbatim>\<open>calculate_health_score\<close> changes its argument \<^verbatim>\<open>peer_data\<close>: called with
  no KPI values and \<^verbatim>\<open>peer_data = {'scores': [50.0, 80.0]}\<close> it returns a health score
  of 0 ranked third of three, and the caller's list \<^verbatim>\<open>peer_data['scores']\<close> is
  \<^verbatim>\<open>[80.0, 50.0, 0]\<close> after the call: the overall score has been appended to it and the
  list sorted in place.
\<close>

theorem calculate_health_score_changes_peer_scores:
  "\<exists>h. calculate_health_score example_runtime Map.empty (Some peers_before) =
          Inr (h, Some peers_after) \<and>
        overall_score h = NInt 0 \<and>
        peer_comparison h =
          Some \<lparr>rank = 3, total_peers = 3, percentile = NFloat 0, peer_average = NFloat 43.3,
                peer_median = NFloat 50, vs_average = NFloat (- 43.3)\<rparr>"
proof -
  obtain cs where cs:
    "health_loop example_runtime Map.empty (map fst BENCHMARK_CATEGORIES) ([], []) = Inr (cs, [])"
    "kpi_scores ` snd ` set cs \<subseteq> {[]}"
    using health_loop_no_values [of "[]" example_runtime "map fst BENCHMARK_CATEGORIES" "[]"]
    by auto
  have w: "weigh_categories example_runtime cs (NInt 0, NInt 0) = (NInt 0, NInt 0)"
    by (rule weigh_categories_no_data [OF cs(2)])
  have ne: "peers_before \<noteq> Map.empty" by (simp add: peers_before_def)
  show ?thesis
    by (simp add: calculate_health_score_def cs(1) w ne example_peer_comparison Let_def)
qed

end
